theory Spec2Isabelle
  imports Main "HOL-Library.Word"
begin

unbundle bit_operations_syntax

section \<open>Go HTTP/2 uprobes (go\_http2\_bpf.c): data model\<close>

type_synonym u8 = "8 word"
type_synonym u16 = "16 word"
type_synonym u32 = "32 word"
type_synonym u64 = "64 word"

text \<open>Pointers are 64-bit machine words (the probes read \<open>rax\<close>, \<open>rsp\<close>: x86-64).
  A C \<open>int\<close> is a \<open>u32\<close> bit pattern, read with \<open>sint\<close> where its sign matters.\<close>

type_synonym addr = u64

text \<open>Mirrors of the Go runtime values. Their C declarations are in a header of the
  repository; the layout used here is the two/three machine words of the Go runtime.\<close>

record go_string =
  str_ptr :: addr
  str_len :: u64

record go_interface =
  if_type :: u64
  if_ptr :: addr

record go_slice =
  slice_ptr :: addr
  slice_len :: u64
  slice_cap :: u64

record go_http2_header_field =
  hf_name :: go_string
  hf_value :: go_string
  hf_sensitive :: bool

text \<open>The registers of \<open>struct pt_regs\<close> that the probes read.\<close>

record pt_regs =
  rax :: u64
  rbx :: u64
  rcx :: u64
  rdi :: u64
  rsi :: u64
  r8 :: u64
  rsp :: u64

text \<open>The indices into \<open>ebpf_proc_info.offsets\<close> that this file uses.\<close>

datatype offset_idx =
    OFFSET_IDX_CONN_HTTP2_SERVER_CONN
  | OFFSET_IDX_TCONN_HTTP2_CLIENT_CONN
  | OFFSET_IDX_CONN_GRPC_HTTP2_CLIENT
  | OFFSET_IDX_CONN_GRPC_HTTP2_SERVER
  | OFFSET_IDX_SIDE_GRPC_TRANSPORT_LOOPY_WRITER
  | OFFSET_IDX_FRAMER_GRPC_TRANSPORT_LOOPY_WRITER
  | OFFSET_IDX_WRITER_GRPC_TRANSPORT_FRAMER
  | OFFSET_IDX_CONN_GRPC_TRANSPORT_BUFWRITER
  | OFFSET_IDX_CC_HTTP2_CLIENT_CONN_READ_LOOP
  | OFFSET_IDX_STREAM_ID_HTTP2_FRAME_HEADER
  | OFFSET_IDX_FIELDS_HTTP2_META_HEADERS_FRAME
  | OFFSET_IDX_STREAM_HTTP2_CLIENT_CONN

record ebpf_proc_info =
  version :: u32
  offsets :: "offset_idx \<Rightarrow> u64"
  credentials_syscallConn_itab :: u64

record socket_info_t =
  uid :: u64

datatype traffic_direction = T_EGRESS | T_INGRESS

datatype traffic_protocol = PROTO_UNKNOWN | PROTO_HTTP2 | PROTO_TLS_HTTP2

datatype data_source = DATA_SOURCE_OTHER | DATA_SOURCE_GO_HTTP2_UPROBE

text \<open>Constants and macros that the file uses and does not define. They are parameters
  of the model: \<open>GO_VERSION_1_17_0\<close> is the value of \<open>GO_VERSION(1, 17, 0)\<close>,
  \<open>SOCKET_DATA_OFFSET\<close> the value of \<open>offsetof(struct __socket_data, data)\<close>, the
  \<open>MSG_*\<close> fields the numeric values of \<open>enum message_type\<close>, \<open>gen_conn_key_id\<close>
  the macro of that name, and \<open>socket_info_ok\<close> the test that \<open>is_socket_info_valid\<close>
  makes on an entry that is present.\<close>

record kconsts =
  GO_VERSION_1_17_0 :: u32
  HTTP2_BUFFER_INFO_SIZE :: u32
  SOCKET_DATA_OFFSET :: u32
  MSG_REQUEST :: u32
  MSG_RESPONSE :: u32
  MSG_REQUEST_END :: u32
  PF_INET :: u16
  PF_INET6 :: u16
  IPPROTO_TCP :: u8
  STRUCT_SOCK_FAMILY_OFFSET :: u64
  STRUCT_SOCK_DPORT_OFFSET :: u64
  STRUCT_SOCK_SPORT_OFFSET :: u64
  STRUCT_SOCK_SADDR_OFFSET :: u64
  STRUCT_SOCK_DADDR_OFFSET :: u64
  STRUCT_SOCK_IP6SADDR_OFFSET :: u64
  gen_conn_key_id :: "u64 \<Rightarrow> u64 \<Rightarrow> u64"
  socket_info_ok :: "socket_info_t \<Rightarrow> bool"

subsection \<open>The bounded read primitive\<close>

text \<open>The memory that \<open>bpf_probe_read\<close> reads, one reader for each C type the file reads
  through it. A reader gives \<open>None\<close> where the read is denied. Bytes are a total
  function with a predicate for the readable ranges, so that a read of \<open>n\<close> bytes
  gives exactly \<open>n\<close> bytes. \<open>read_header_field m p idx\<close> is the read at \<open>p + idx\<close>
  in units of the field struct (the C pointer arithmetic \<open>tmp + idx\<close>).\<close>

record memory =
  read_ptr :: "addr \<Rightarrow> u64 option"
  read_u32 :: "addr \<Rightarrow> u32 option"
  read_u16 :: "addr \<Rightarrow> u16 option"
  read_interface :: "addr \<Rightarrow> go_interface option"
  read_header_field :: "addr \<Rightarrow> nat \<Rightarrow> go_http2_header_field option"
  byte_at :: "addr \<Rightarrow> u8"
  readable :: "addr \<Rightarrow> nat \<Rightarrow> bool"

text \<open>Modelled from the spec: \<open>bpf_probe_read\<close>, the raw bounded-memory-read primitive,
  is not in this file. The spec gives it an all-or-nothing semantics: either the
  requested bytes are copied or the destination is left as its pre-existing value.
  \<open>dst\<close> is the destination's value before the call; a local that the C code leaves
  uninitialised holds the default (zero) value of the spec's sections 4.2 and 7.\<close>

definition bpf_probe_read :: "(addr \<Rightarrow> 'a option) \<Rightarrow> 'a \<Rightarrow> addr \<Rightarrow> 'a" where
  "bpf_probe_read rd dst src = (case rd src of Some v \<Rightarrow> v | None \<Rightarrow> dst)"

definition read_bytes :: "memory \<Rightarrow> nat \<Rightarrow> addr \<Rightarrow> u8 list option" where
  "read_bytes m n src =
     (if readable m src n then Some (map (\<lambda>i. byte_at m (src + of_nat i)) [0..<n]) else None)"

text \<open>A read of \<open>n\<close> bytes into a byte array at offset \<open>off\<close>: the bytes replace the
  array's contents there, the rest of the array stays.\<close>

definition bpf_probe_read_bytes :: "memory \<Rightarrow> u8 list \<Rightarrow> nat \<Rightarrow> nat \<Rightarrow> addr \<Rightarrow> u8 list" where
  "bpf_probe_read_bytes m dst off n src =
     (case read_bytes m n src of
        Some bs \<Rightarrow> take off dst @ bs @ drop (off + n) dst
      | None \<Rightarrow> dst)"

definition zero_interface :: go_interface where
  "zero_interface = \<lparr>if_type = 0, if_ptr = 0\<rparr>"

definition zero_string :: go_string where
  "zero_string = \<lparr>str_ptr = 0, str_len = 0\<rparr>"

definition zero_field :: go_http2_header_field where
  "zero_field = \<lparr>hf_name = zero_string, hf_value = zero_string, hf_sensitive = False\<rparr>"

subsection \<open>Event records, scratch stack and maps\<close>

record tuple_t =
  tp_l4_protocol :: u8
  tp_dport :: u16
  tp_num :: u16
  tp_rcv_saddr :: "u8 list"
  tp_daddr :: "u8 list"
  tp_addr_len :: u8

text \<open>The fields of \<open>struct __socket_data\<close> that this file writes. The local
  \<open>int tcp_seq\<close> and the field it is stored in are both taken as 32-bit patterns.\<close>

record socket_data =
  sd_source :: data_source
  sd_coroutine_id :: u64
  sd_timestamp :: u64
  sd_comm :: "u8 list"
  sd_tcp_seq :: u32
  sd_direction :: traffic_direction
  sd_data_type :: traffic_protocol
  sd_tuple :: tuple_t
  sd_socket_id :: u64
  sd_tgid :: u32
  sd_pid :: u32
  sd_msg_type :: u32
  sd_syscall_len :: u32
  sd_data_len :: u32

record http2_buffer =
  hb_fd :: u32
  hb_stream_id :: u32
  hb_header_len :: u32
  hb_value_len :: u32
  hb_info :: "u8 list"

text \<open>\<open>struct __http2_stack\<close>: the reusable scratch area that \<open>get_http2_stack\<close>
  returns, holding the send buffer and the header buffer.\<close>

record http2_stack =
  st_len :: u32
  st_events_num :: u32
  st_send_buffer :: socket_data
  st_http2_buffer :: http2_buffer

text \<open>One call of \<open>bpf_perf_event_output\<close>: the scratch area the write takes its
  bytes from, and the size passed.\<close>

record perf_event =
  pe_raw :: http2_stack
  pe_size :: u32

record http2_tcp_seq_key =
  key_tgid :: u32
  key_fd :: u32
  key_tcp_seq_end :: u32

record member_fields_offset =
  ready :: bool

record trace_uid_t =
  socket_id :: u64

record trace_stats =
  socket_map_count :: u64

text \<open>The maps and the event channel. \<open>http2_stack_map\<close> is \<open>None\<close> where
  \<open>get_http2_stack\<close> returns NULL. \<open>http2_tls\<close> is the flag behind
  \<open>update_http2_tls\<close> and \<open>is_http2_tls\<close>.\<close>

record bpf_maps =
  http2_stack_map :: "http2_stack option"
  http2_tls :: bool
  http2_tcp_seq_map :: "http2_tcp_seq_key \<Rightarrow> u32 option"
  proc_info_map :: "u32 \<Rightarrow> ebpf_proc_info option"
  members_offset :: "member_fields_offset option"
  trace_uid_map :: "trace_uid_t option"
  socket_info_map :: "u64 \<Rightarrow> socket_info_t option"
  trace_stats_map :: "trace_stats option"
  socket_data_out :: "perf_event list"

text \<open>What the helpers that are not in this file return during one invocation:
  \<open>bpf_get_current_pid_tgid\<close>, \<open>get_current_goroutine\<close>, \<open>bpf_ktime_get_ns\<close>,
  \<open>bpf_get_current_comm\<close>, \<open>get_tcp_read_seq_from_fd\<close>,
  \<open>get_tcp_write_seq_from_fd\<close>, \<open>get_socket_from_fd\<close> and
  \<open>get_fd_from_tcp_or_tls_conn_interface\<close>.\<close>

record env =
  pid_tgid :: u64
  current_goroutine :: u64
  ktime_get_ns :: u64
  current_comm :: "u8 list"
  tcp_read_seq_from_fd :: "u32 \<Rightarrow> u32"
  tcp_write_seq_from_fd :: "u32 \<Rightarrow> u32"
  socket_from_fd :: "u32 \<Rightarrow> member_fields_offset \<Rightarrow> addr"
  fd_from_tcp_or_tls_conn_interface :: "addr \<Rightarrow> ebpf_proc_info \<Rightarrow> u32"

record http2_header_data =
  hd_read :: bool
  hd_message_type :: u32
  hd_fd :: u32
  hd_name :: go_string
  hd_value :: go_string
  hd_stream :: u32
  hd_ctx :: "pt_regs option"

record http2_headers_data =
  hs_read :: bool
  hs_fd :: u32
  hs_fields :: go_slice
  hs_stream :: u32
  hs_message_type :: u32
  hs_ctx :: "pt_regs option"

section \<open>ABI resolver and Go value navigation\<close>

definition get_the_first_parameter ::
  "kconsts \<Rightarrow> memory \<Rightarrow> pt_regs \<Rightarrow> ebpf_proc_info \<Rightarrow> addr" where
  "get_the_first_parameter K m ctx info =
     (if GO_VERSION_1_17_0 K \<le> version info then rax ctx
      else bpf_probe_read (read_ptr m) 0 (rsp ctx + 8))"

definition is_grpc_syscallConn_interface ::
  "memory \<Rightarrow> addr \<Rightarrow> ebpf_proc_info option \<Rightarrow> bool" where
  "is_grpc_syscallConn_interface m ptr info =
     (let i = bpf_probe_read (read_interface m) zero_interface ptr
      in case info of
           Some pinfo \<Rightarrow> if_type i = credentials_syscallConn_itab pinfo
         | None \<Rightarrow> False)"

section \<open>Connection locator\<close>

text \<open>Modelled from the spec: \<open>update_http2_tls\<close> and \<open>is_http2_tls\<close> are not in
  this file. The spec has them set and consult an invocation-scoped TLS flag.\<close>

definition update_http2_tls :: "bool \<Rightarrow> bpf_maps \<Rightarrow> bpf_maps" where
  "update_http2_tls b g = g\<lparr>http2_tls := b\<rparr>"

definition is_http2_tls :: "bpf_maps \<Rightarrow> bool" where
  "is_http2_tls g = http2_tls g"

definition get_fd_from_tcp_or_tls_conn_interface ::
  "env \<Rightarrow> addr \<Rightarrow> ebpf_proc_info \<Rightarrow> u32" where
  "get_fd_from_tcp_or_tls_conn_interface E ptr info = fd_from_tcp_or_tls_conn_interface E ptr info"

definition get_fd_from_http2ClientConn ::
  "env \<Rightarrow> addr \<Rightarrow> ebpf_proc_info \<Rightarrow> bpf_maps \<Rightarrow> u32 \<times> bpf_maps" where
  "get_fd_from_http2ClientConn E ptr info g =
     (let g1 = update_http2_tls False g;
          ptr1 = ptr + offsets info OFFSET_IDX_TCONN_HTTP2_CLIENT_CONN
      in (get_fd_from_tcp_or_tls_conn_interface E ptr1 info, g1))"

definition get_fd_from_http2ClientConn_ctx ::
  "kconsts \<Rightarrow> env \<Rightarrow> memory \<Rightarrow> pt_regs \<Rightarrow> ebpf_proc_info \<Rightarrow> bpf_maps \<Rightarrow> u32 \<times> bpf_maps" where
  "get_fd_from_http2ClientConn_ctx K E m ctx info g =
     (let ptr = get_the_first_parameter K m ctx info
      in get_fd_from_http2ClientConn E ptr info g)"

text \<open>The three gRPC entries share their tail: the wrapper test on the interface at
  \<open>ptr\<close>, then the two reads that replace \<open>ptr\<close>, then the resolver.\<close>

definition grpc_unwrap_and_resolve ::
  "env \<Rightarrow> memory \<Rightarrow> addr \<Rightarrow> ebpf_proc_info \<Rightarrow> bpf_maps \<Rightarrow> u32 \<times> bpf_maps" where
  "grpc_unwrap_and_resolve E m ptr info g =
     (if is_grpc_syscallConn_interface m ptr (Some info) then
        (let g1 = update_http2_tls True g;
             i = bpf_probe_read (read_interface m) zero_interface ptr;
             i1 = bpf_probe_read (read_interface m) i (if_ptr i);
             ptr1 = if_ptr i1
         in (get_fd_from_tcp_or_tls_conn_interface E ptr1 info, g1))
      else (get_fd_from_tcp_or_tls_conn_interface E ptr info, g))"

definition get_fd_from_grpc_http2Client_ctx ::
  "kconsts \<Rightarrow> env \<Rightarrow> memory \<Rightarrow> pt_regs \<Rightarrow> ebpf_proc_info \<Rightarrow> bpf_maps \<Rightarrow> u32 \<times> bpf_maps" where
  "get_fd_from_grpc_http2Client_ctx K E m ctx info g =
     (let g1 = update_http2_tls False g;
          ptr = get_the_first_parameter K m ctx info;
          ptr1 = ptr + offsets info OFFSET_IDX_CONN_GRPC_HTTP2_CLIENT
      in grpc_unwrap_and_resolve E m ptr1 info g1)"

definition get_fd_from_grpc_http2Server_ctx ::
  "kconsts \<Rightarrow> env \<Rightarrow> memory \<Rightarrow> pt_regs \<Rightarrow> ebpf_proc_info \<Rightarrow> bpf_maps \<Rightarrow> u32 \<times> bpf_maps" where
  "get_fd_from_grpc_http2Server_ctx K E m ctx info g =
     (let g1 = update_http2_tls False g;
          ptr = get_the_first_parameter K m ctx info;
          ptr1 = ptr + offsets info OFFSET_IDX_CONN_GRPC_HTTP2_SERVER
      in grpc_unwrap_and_resolve E m ptr1 info g1)"

definition get_fd_from_grpc_loopyWriter ::
  "kconsts \<Rightarrow> env \<Rightarrow> memory \<Rightarrow> pt_regs \<Rightarrow> ebpf_proc_info \<Rightarrow> bpf_maps \<Rightarrow> u32 \<times> bpf_maps" where
  "get_fd_from_grpc_loopyWriter K E m ctx info g =
     (let g1 = update_http2_tls False g;
          ptr = get_the_first_parameter K m ctx info;
          ptr1 = ptr + offsets info OFFSET_IDX_FRAMER_GRPC_TRANSPORT_LOOPY_WRITER;
          ptr2 = bpf_probe_read (read_ptr m) ptr1 ptr1;
          ptr3 = ptr2 + offsets info OFFSET_IDX_WRITER_GRPC_TRANSPORT_FRAMER;
          ptr4 = bpf_probe_read (read_ptr m) ptr3 ptr3;
          ptr5 = ptr4 + offsets info OFFSET_IDX_CONN_GRPC_TRANSPORT_BUFWRITER
      in grpc_unwrap_and_resolve E m ptr5 info g1)"

section \<open>Socket and identity enricher\<close>

definition get_previous_read_tcp_seq :: "env \<Rightarrow> bpf_maps \<Rightarrow> u32 \<Rightarrow> u32 \<Rightarrow> u32" where
  "get_previous_read_tcp_seq E g fd seq_end =
     (let key = \<lparr>key_tgid = ucast (drop_bit 32 (pid_tgid E)), key_fd = fd,
                  key_tcp_seq_end = seq_end\<rparr>
      in case http2_tcp_seq_map g key of
           Some seq_begin \<Rightarrow> seq_begin
         | None \<Rightarrow> 0)"

text \<open>\<open>is_socket_info_valid\<close> is not in this file. A NULL entry is not valid (the
  branch it guards reads \<open>socket_info_ptr->uid\<close>); what it asks of an entry that is
  present is the parameter \<open>socket_info_ok\<close>.\<close>

definition is_socket_info_valid :: "kconsts \<Rightarrow> socket_info_t option \<Rightarrow> bool" where
  "is_socket_info_valid K p = (case p of None \<Rightarrow> False | Some si \<Rightarrow> socket_info_ok K si)"

text \<open>\<open>__bpf_ntohs\<close> on the little-endian target: the two bytes swapped.\<close>

definition bpf_ntohs :: "u16 \<Rightarrow> u16" where
  "bpf_ntohs x = push_bit 8 x OR drop_bit 8 x"

text \<open>The five-tuple part of \<open>http2_fill_common_socket\<close> (from \<open>l4_protocol\<close> to the
  end of the \<open>switch\<close>). The read of \<open>skc_flags\<close> fills a local that is never used.\<close>

definition fill_tuple :: "kconsts \<Rightarrow> memory \<Rightarrow> addr \<Rightarrow> tuple_t \<Rightarrow> tuple_t" where
  "fill_tuple K m sk tp =
     (let tp1 = tp\<lparr>tp_l4_protocol := IPPROTO_TCP K\<rparr>;
          skc_family = bpf_probe_read (read_u16 m) 0 (sk + STRUCT_SOCK_FAMILY_OFFSET K);
          inet_dport = bpf_probe_read (read_u16 m) 0 (sk + STRUCT_SOCK_DPORT_OFFSET K);
          inet_sport = bpf_probe_read (read_u16 m) 0 (sk + STRUCT_SOCK_SPORT_OFFSET K);
          tp2 = tp1\<lparr>tp_dport := bpf_ntohs inet_dport, tp_num := inet_sport\<rparr>
      in if skc_family = PF_INET K then
           (let r = bpf_probe_read_bytes m (tp_rcv_saddr tp2) 0 4 (sk + STRUCT_SOCK_SADDR_OFFSET K);
                d = bpf_probe_read_bytes m (tp_daddr tp2) 0 4 (sk + STRUCT_SOCK_DADDR_OFFSET K)
            in tp2\<lparr>tp_rcv_saddr := r, tp_daddr := d, tp_addr_len := 4\<rparr>)
         else if skc_family = PF_INET6 K then
           (let r = bpf_probe_read_bytes m (tp_rcv_saddr tp2) 0 16 (sk + STRUCT_SOCK_IP6SADDR_OFFSET K);
                d = bpf_probe_read_bytes m (tp_daddr tp2) 0 16 (sk + STRUCT_SOCK_IP6SADDR_OFFSET K)
            in tp2\<lparr>tp_rcv_saddr := r, tp_daddr := d, tp_addr_len := 16\<rparr>)
         else tp2)"

text \<open>The socket-id part of \<open>http2_fill_common_socket\<close> (from the lookup of
  \<open>trace_uid_map\<close> to the end).\<close>

definition fill_socket_id ::
  "kconsts \<Rightarrow> env \<Rightarrow> http2_header_data \<Rightarrow> socket_data \<times> bpf_maps
     \<Rightarrow> socket_data \<times> bpf_maps" where
  "fill_socket_id K E data = (\<lambda>(sb, g).
     (let id = pid_tgid E;
          tgid = (ucast (drop_bit 32 id) :: u32)
      in case trace_uid_map g of
           None \<Rightarrow> (sb, g)
         | Some trace_uid \<Rightarrow>
             (let conn_key = gen_conn_key_id K (ucast tgid) (scast (hd_fd data));
                  socket_info_ptr = socket_info_map g conn_key
              in if is_socket_info_valid K socket_info_ptr then
                   (case socket_info_ptr of
                      None \<Rightarrow> (sb, g)
                    | Some si \<Rightarrow>
                        (sb\<lparr>sd_socket_id := uid si, sd_tgid := tgid, sd_pid := ucast id\<rparr>, g))
                 else
                   (let sb1 = sb\<lparr>sd_socket_id := socket_id trace_uid + 1\<rparr>;
                        g1 = g\<lparr>trace_uid_map := Some (trace_uid\<lparr>socket_id := socket_id trace_uid + 1\<rparr>)\<rparr>;
                        sk_info = \<lparr>uid = sd_socket_id sb1\<rparr>;
                        g2 = g1\<lparr>socket_info_map := (socket_info_map g1)(conn_key \<mapsto> sk_info)\<rparr>
                    in case trace_stats_map g2 of
                         None \<Rightarrow> (sb1, g2)
                       | Some ts \<Rightarrow>
                           (sb1\<lparr>sd_tgid := tgid, sd_pid := ucast id\<rparr>,
                            g2\<lparr>trace_stats_map := Some (ts\<lparr>socket_map_count := socket_map_count ts + 1\<rparr>)\<rparr>)))))"

text \<open>The sequence number that \<open>http2_fill_common_socket\<close> resolves into its local
  \<open>tcp_seq\<close> (the \<open>if (data->read)\<close> statement).\<close>

definition resolved_tcp_seq :: "env \<Rightarrow> bpf_maps \<Rightarrow> bool \<Rightarrow> u32 \<Rightarrow> u32" where
  "resolved_tcp_seq E g rd fd =
     (if rd
      then get_previous_read_tcp_seq E g fd (tcp_read_seq_from_fd E fd)
      else tcp_write_seq_from_fd E fd)"

text \<open>\<open>http2_fill_common_socket data send_buffer\<close>: every caller passes the send buffer
  of the scratch stack; the model takes its value and gives back the new one.\<close>

definition http2_fill_common_socket ::
  "kconsts \<Rightarrow> env \<Rightarrow> memory \<Rightarrow> http2_header_data \<Rightarrow> socket_data \<times> bpf_maps
     \<Rightarrow> socket_data \<times> bpf_maps" where
  "http2_fill_common_socket K E m data = (\<lambda>(send_buffer, g).
     (let sb1 = send_buffer\<lparr>sd_source := DATA_SOURCE_GO_HTTP2_UPROBE,
                             sd_coroutine_id := current_goroutine E,
                             sd_timestamp := ktime_get_ns E,
                             sd_comm := current_comm E\<rparr>;
          tcp_seq = resolved_tcp_seq E g (hd_read data) (hd_fd data);
          direction = (if hd_read data then T_INGRESS else T_EGRESS)
      in if tcp_seq = 0 then (sb1, g)
         else
           (let sb2 = sb1\<lparr>sd_tcp_seq := tcp_seq, sd_direction := direction,
                           sd_data_type := (if is_http2_tls g then PROTO_TLS_HTTP2 else PROTO_HTTP2)\<rparr>
            in case members_offset g of
                 None \<Rightarrow> (sb2, g)
               | Some offset \<Rightarrow>
                   if \<not> ready offset then (sb2, g)
                   else
                     (let sk = socket_from_fd E (hd_fd data) offset;
                          sb3 = sb2\<lparr>sd_tuple := fill_tuple K m sk (sd_tuple sb2)\<rparr>
                      in fill_socket_id K E data (sb3, g)))))"

section \<open>Header event assembler and emitter\<close>

text \<open>The size that \<open>report_http2_header\<close> passes to \<open>bpf_perf_event_output\<close>, as a
  function of \<open>stack->len\<close>: \<open>1 + ((stack->len + 8) & 1023)\<close>.\<close>

definition report_send_size :: "u32 \<Rightarrow> u32" where
  "report_send_size len = 1 + ((len + 8) AND 1023)"

definition report_http2_header :: "kconsts \<Rightarrow> pt_regs option \<Rightarrow> bpf_maps \<Rightarrow> bpf_maps" where
  "report_http2_header K ctx g =
     (case ctx of
        None \<Rightarrow> g
      | Some c \<Rightarrow>
          (case http2_stack_map g of
             None \<Rightarrow> g
           | Some stack \<Rightarrow>
               (let stack1 = stack\<lparr>st_events_num := 1\<rparr>;
                    stack2 = stack1\<lparr>st_len := SOCKET_DATA_OFFSET K
                                              + sd_syscall_len (st_send_buffer stack1)\<rparr>;
                    ev = \<lparr>pe_raw = stack2, pe_size = report_send_size (st_len stack2)\<rparr>
                in g\<lparr>http2_stack_map := Some stack2,
                     socket_data_out := socket_data_out g @ [ev]\<rparr>)))"

text \<open>\<open>http2_fill_buffer_and_send data buffer send_buffer\<close>: every caller passes the
  address of a local for \<open>data\<close> and the two members of the scratch stack for
  \<open>buffer\<close> and \<open>send_buffer\<close>, which \<open>report_http2_header\<close> reads again through
  \<open>get_http2_stack\<close>. The model works on the stack in the maps; a NULL \<open>buffer\<close> or
  \<open>send_buffer\<close> is the stack being absent. The tests \<open>buffer->header_len >= 0\<close> hold
  of every masked length and are left out.\<close>

definition http2_fill_buffer_and_send ::
  "kconsts \<Rightarrow> memory \<Rightarrow> http2_header_data \<Rightarrow> bpf_maps \<Rightarrow> bpf_maps" where
  "http2_fill_buffer_and_send K m data g =
     (case http2_stack_map g of
        None \<Rightarrow> g
      | Some stack \<Rightarrow>
          if sd_tcp_seq (st_send_buffer stack) = 0 then g
          else
            (let sb1 = (st_send_buffer stack)\<lparr>sd_msg_type := hd_message_type data\<rparr>;
                 header_len = (ucast (str_len (hd_name data) AND 0x03FF) :: u32);
                 value_len = (ucast (str_len (hd_value data) AND 0x03FF) :: u32);
                 buf1 = (st_http2_buffer stack)\<lparr>hb_fd := hd_fd data, hb_stream_id := hd_stream data,
                          hb_header_len := header_len, hb_value_len := value_len\<rparr>;
                 count = 16 + header_len + value_len
             in if HTTP2_BUFFER_INFO_SIZE K < count
                then g\<lparr>http2_stack_map :=
                        Some (stack\<lparr>st_send_buffer := sb1, st_http2_buffer := buf1\<rparr>)\<rparr>
                else
                  (let sb2 = sb1\<lparr>sd_syscall_len := count, sd_data_len := count\<rparr>;
                       info1 = (if header_len < HTTP2_BUFFER_INFO_SIZE K
                                then bpf_probe_read_bytes m (hb_info buf1) 0 (1 + unat header_len)
                                       (str_ptr (hd_name data))
                                else hb_info buf1);
                       info2 = (if header_len < HTTP2_BUFFER_INFO_SIZE K
                                     \<and> value_len < HTTP2_BUFFER_INFO_SIZE K
                                then bpf_probe_read_bytes m info1 (unat header_len) (1 + unat value_len)
                                       (str_ptr (hd_value data))
                                else info1);
                       info3 = (if header_len + value_len < HTTP2_BUFFER_INFO_SIZE K
                                then info2[unat (header_len + value_len) := 0]
                                else info2);
                       buf2 = buf1\<lparr>hb_info := info3\<rparr>
                   in report_http2_header K (hd_ctx data)
                        (g\<lparr>http2_stack_map :=
                             Some (stack\<lparr>st_send_buffer := sb2, st_http2_buffer := buf2\<rparr>)\<rparr>))))"

text \<open>The loop of \<open>submit_http2_headers\<close>, \<open>for (idx = 0; idx < 9; ++idx)\<close>: the first
  argument counts the iterations that are left, \<open>idx\<close> is the loop variable. \<open>idx\<close> is
  an \<open>int\<close> and the slice length a signed Go \<open>int\<close>: the comparison is signed.\<close>

fun submit_loop ::
  "nat \<Rightarrow> kconsts \<Rightarrow> memory \<Rightarrow> http2_headers_data \<Rightarrow> nat
     \<Rightarrow> go_http2_header_field \<times> http2_header_data \<times> bpf_maps
     \<Rightarrow> go_http2_header_field \<times> http2_header_data \<times> bpf_maps" where
  "submit_loop 0 K m headers idx (field, data, g) = (field, data, g)"
| "submit_loop (Suc n) K m headers idx (field, data, g) =
     (if sint (slice_len (hs_fields headers)) \<le> int idx then (field, data, g)
      else
        (let tmp = slice_ptr (hs_fields headers);
             field1 = bpf_probe_read (\<lambda>p. read_header_field m p idx) field tmp;
             data1 = data\<lparr>hd_name := hf_name field1, hd_value := hf_value field1\<rparr>;
             g1 = http2_fill_buffer_and_send K m data1 g
         in submit_loop n K m headers (Suc idx) (field1, data1, g1)))"

definition submit_http2_headers ::
  "kconsts \<Rightarrow> env \<Rightarrow> memory \<Rightarrow> http2_headers_data \<Rightarrow> bpf_maps \<Rightarrow> bpf_maps" where
  "submit_http2_headers K E m headers g =
     (let data = \<lparr>hd_read = hs_read headers, hd_message_type = hs_message_type headers,
                   hd_fd = hs_fd headers, hd_name = zero_string, hd_value = zero_string,
                   hd_stream = hs_stream headers, hd_ctx = hs_ctx headers\<rparr>
      in case http2_stack_map g of
           None \<Rightarrow> g
         | Some stack \<Rightarrow>
             (let (send_buffer, g1) = http2_fill_common_socket K E m data (st_send_buffer stack, g);
                  g2 = g1\<lparr>http2_stack_map := Some (stack\<lparr>st_send_buffer := send_buffer\<rparr>)\<rparr>;
                  (field, data1, g3) = submit_loop 9 K m headers 0 (zero_field, data, g2);
                  data2 = data1\<lparr>hd_name := (hd_name data1)\<lparr>str_len := 0\<rparr>\<rparr>;
                  data3 = data2\<lparr>hd_value := (hd_value data2)\<lparr>str_len := 0\<rparr>\<rparr>;
                  data4 = data3\<lparr>hd_message_type := hd_message_type data3 + 2\<rparr>
              in http2_fill_buffer_and_send K m data4 g3))"

section \<open>Probe entry points of the client connection\<close>

definition uprobe_go_http2ClientConn_writeHeader ::
  "kconsts \<Rightarrow> env \<Rightarrow> memory \<Rightarrow> pt_regs \<Rightarrow> bpf_maps \<Rightarrow> bpf_maps" where
  "uprobe_go_http2ClientConn_writeHeader K E m ctx g =
     (let id = pid_tgid E;
          pid = (ucast (drop_bit 32 id) :: u32)
      in case proc_info_map g pid of
           None \<Rightarrow> g
         | Some info \<Rightarrow>
             (let (fd, g1) = get_fd_from_http2ClientConn_ctx K E m ctx info g;
                  data = \<lparr>hd_read = False, hd_message_type = MSG_REQUEST K, hd_fd = fd,
                           hd_name = zero_string, hd_value = zero_string, hd_stream = 0,
                           hd_ctx = Some ctx\<rparr>;
                  ptr = get_the_first_parameter K m ctx info
                          + offsets info OFFSET_IDX_STREAM_HTTP2_CLIENT_CONN;
                  data1 = data\<lparr>hd_stream := bpf_probe_read (read_u32 m) (hd_stream data) ptr\<rparr>;
                  data2 = data1\<lparr>hd_stream := hd_stream data1 - 2\<rparr>
              in case http2_stack_map g1 of
                   None \<Rightarrow> g1
                 | Some stack \<Rightarrow>
                     (let (send_buffer, g2) =
                            http2_fill_common_socket K E m data2 (st_send_buffer stack, g1);
                          g3 = g2\<lparr>http2_stack_map := Some (stack\<lparr>st_send_buffer := send_buffer\<rparr>)\<rparr>;
                          data3 =
                            (if GO_VERSION_1_17_0 K \<le> version info then
                               data2\<lparr>hd_name := \<lparr>str_ptr = rbx ctx, str_len = rcx ctx\<rparr>,
                                     hd_value := \<lparr>str_ptr = rdi ctx, str_len = rsi ctx\<rparr>\<rparr>
                             else
                               (let np = bpf_probe_read (read_ptr m) (str_ptr (hd_name data2)) (rsp ctx + 16);
                                    nl = bpf_probe_read (read_ptr m) (str_len (hd_name data2)) (rsp ctx + 24);
                                    vp = bpf_probe_read (read_ptr m) (str_ptr (hd_value data2)) (rsp ctx + 32);
                                    vl = bpf_probe_read (read_ptr m) (str_len (hd_value data2)) (rsp ctx + 40)
                                in data2\<lparr>hd_name := \<lparr>str_ptr = np, str_len = nl\<rparr>,
                                         hd_value := \<lparr>str_ptr = vp, str_len = vl\<rparr>\<rparr>))
                      in http2_fill_buffer_and_send K m data3 g3)))"

definition uprobe_go_http2ClientConn_writeHeaders ::
  "kconsts \<Rightarrow> env \<Rightarrow> memory \<Rightarrow> pt_regs \<Rightarrow> bpf_maps \<Rightarrow> bpf_maps" where
  "uprobe_go_http2ClientConn_writeHeaders K E m ctx g =
     (let id = pid_tgid E;
          pid = (ucast (drop_bit 32 id) :: u32)
      in case proc_info_map g pid of
           None \<Rightarrow> g
         | Some info \<Rightarrow>
             (let data = \<lparr>hd_read = False, hd_message_type = 0, hd_fd = 0,
                           hd_name = zero_string, hd_value = zero_string, hd_stream = 0,
                           hd_ctx = None\<rparr>;
                  ptr = get_the_first_parameter K m ctx info
                          + offsets info OFFSET_IDX_STREAM_HTTP2_CLIENT_CONN;
                  data1 = data\<lparr>hd_stream := bpf_probe_read (read_u32 m) (hd_stream data) ptr\<rparr>;
                  data2 = data1\<lparr>hd_stream := hd_stream data1 - 2, hd_read := False\<rparr>;
                  (fd, g1) = get_fd_from_http2ClientConn_ctx K E m ctx info g;
                  data3 = data2\<lparr>hd_fd := fd, hd_message_type := MSG_REQUEST_END K,
                                hd_ctx := Some ctx\<rparr>;
                  data4 = data3\<lparr>hd_name := (hd_name data3)\<lparr>str_len := 0\<rparr>\<rparr>;
                  data5 = data4\<lparr>hd_value := (hd_value data4)\<lparr>str_len := 0\<rparr>\<rparr>
              in case http2_stack_map g1 of
                   None \<Rightarrow> g1
                 | Some stack \<Rightarrow>
                     (let (send_buffer, g2) =
                            http2_fill_common_socket K E m data5 (st_send_buffer stack, g1);
                          g3 = g2\<lparr>http2_stack_map := Some (stack\<lparr>st_send_buffer := send_buffer\<rparr>)\<rparr>
                      in http2_fill_buffer_and_send K m data5 g3)))"

section \<open>Notions used to state the properties\<close>

text \<open>The two calling conventions as the spec describes them: under the register
  convention the first argument is in the designated register \<open>rax\<close> at entry; under
  the stack convention it is one machine word above the stack pointer, past the return
  address.\<close>

definition first_argument_in_register :: "pt_regs \<Rightarrow> u64 \<Rightarrow> bool" where
  "first_argument_in_register ctx a = (rax ctx = a)"

definition first_argument_on_stack :: "memory \<Rightarrow> pt_regs \<Rightarrow> u64 \<Rightarrow> bool" where
  "first_argument_on_stack m ctx a = (read_ptr m (rsp ctx + 8) = Some a)"

text \<open>Modelled from the spec: the store into \<open>http2_tcp_seq_map\<close> is not in this file.
  The spec has the begin sequence inserted under the key (tgid, fd, end sequence).\<close>

definition http2_tcp_seq_store :: "http2_tcp_seq_key \<Rightarrow> u32 \<Rightarrow> bpf_maps \<Rightarrow> bpf_maps" where
  "http2_tcp_seq_store key seq_begin g =
     g\<lparr>http2_tcp_seq_map := (http2_tcp_seq_map g)(key \<mapsto> seq_begin)\<rparr>"

text \<open>The key that \<open>http2_fill_common_socket\<close> computes for the socket-info map.\<close>

definition conn_key_of :: "kconsts \<Rightarrow> env \<Rightarrow> u32 \<Rightarrow> u64" where
  "conn_key_of K E fd =
     gen_conn_key_id K (ucast (ucast (drop_bit 32 (pid_tgid E)) :: u32)) (scast fd)"

text \<open>The length that \<open>http2_fill_buffer_and_send\<close> stores for a name or value, and its
  test \<open>count > HTTP2_BUFFER_INFO_SIZE\<close> (negated).\<close>

definition masked_len :: "go_string \<Rightarrow> u32" where
  "masked_len s = ucast (str_len s AND 0x03FF)"

definition fits_buffer :: "kconsts \<Rightarrow> go_string \<Rightarrow> go_string \<Rightarrow> bool" where
  "fits_buffer K name val = (\<not> HTTP2_BUFFER_INFO_SIZE K < 16 + masked_len name + masked_len val)"

text \<open>What is read off an emitted record: message kind, name length and value length;
  the five-tuple; the stream id. \<open>new_events g g'\<close> are the records written between the
  states \<open>g\<close> and \<open>g'\<close>.\<close>

definition ev_summary :: "perf_event \<Rightarrow> u32 \<times> u32 \<times> u32" where
  "ev_summary ev = (sd_msg_type (st_send_buffer (pe_raw ev)),
                    hb_header_len (st_http2_buffer (pe_raw ev)),
                    hb_value_len (st_http2_buffer (pe_raw ev)))"

definition ev_tuple :: "perf_event \<Rightarrow> tuple_t" where
  "ev_tuple ev = sd_tuple (st_send_buffer (pe_raw ev))"

definition ev_stream_id :: "perf_event \<Rightarrow> u32" where
  "ev_stream_id ev = hb_stream_id (st_http2_buffer (pe_raw ev))"

definition new_events :: "bpf_maps \<Rightarrow> bpf_maps \<Rightarrow> perf_event list" where
  "new_events g g' = drop (length (socket_data_out g)) (socket_data_out g')"

text \<open>The values that the local \<open>field\<close> takes in the iterations of the loop of
  \<open>submit_http2_headers\<close>, in order (a denied read leaves the previous value).\<close>

fun loop_fields :: "nat \<Rightarrow> memory \<Rightarrow> http2_headers_data \<Rightarrow> nat \<Rightarrow> go_http2_header_field
    \<Rightarrow> go_http2_header_field list" where
  "loop_fields 0 m headers idx field = []"
| "loop_fields (Suc n) m headers idx field =
     (if sint (slice_len (hs_fields headers)) \<le> int idx then []
      else (let field1 = bpf_probe_read (\<lambda>p. read_header_field m p idx) field
                           (slice_ptr (hs_fields headers))
            in field1 # loop_fields n m headers (Suc idx) field1))"

text \<open>The gate of \<open>http2_fill_buffer_and_send\<close> is open: the stack is there and its send
  buffer holds a nonzero \<open>tcp_seq\<close>.\<close>

definition seq_ready :: "bpf_maps \<Rightarrow> bool" where
  "seq_ready g = (case http2_stack_map g of None \<Rightarrow> False
                   | Some stack \<Rightarrow> sd_tcp_seq (st_send_buffer stack) \<noteq> 0)"

text \<open>The connection field that each gRPC entry tests for the wrapper.\<close>

definition conn_field_grpc_http2Client :: "kconsts \<Rightarrow> memory \<Rightarrow> pt_regs \<Rightarrow> ebpf_proc_info \<Rightarrow> addr" where
  "conn_field_grpc_http2Client K m ctx info =
     get_the_first_parameter K m ctx info + offsets info OFFSET_IDX_CONN_GRPC_HTTP2_CLIENT"

definition conn_field_grpc_http2Server :: "kconsts \<Rightarrow> memory \<Rightarrow> pt_regs \<Rightarrow> ebpf_proc_info \<Rightarrow> addr" where
  "conn_field_grpc_http2Server K m ctx info =
     get_the_first_parameter K m ctx info + offsets info OFFSET_IDX_CONN_GRPC_HTTP2_SERVER"

definition conn_field_grpc_loopyWriter :: "kconsts \<Rightarrow> memory \<Rightarrow> pt_regs \<Rightarrow> ebpf_proc_info \<Rightarrow> addr" where
  "conn_field_grpc_loopyWriter K m ctx info =
     (let ptr1 = get_the_first_parameter K m ctx info
                   + offsets info OFFSET_IDX_FRAMER_GRPC_TRANSPORT_LOOPY_WRITER;
          ptr3 = bpf_probe_read (read_ptr m) ptr1 ptr1
                   + offsets info OFFSET_IDX_WRITER_GRPC_TRANSPORT_FRAMER
      in bpf_probe_read (read_ptr m) ptr3 ptr3
           + offsets info OFFSET_IDX_CONN_GRPC_TRANSPORT_BUFWRITER)"

text \<open>The name and the value that \<open>uprobe_go_http2ClientConn_writeHeader\<close> takes from
  the call: from the registers under the register convention, from the stack otherwise
  (a denied read leaves the zero of the initialiser).\<close>

definition writeHeader_strings ::
  "kconsts \<Rightarrow> memory \<Rightarrow> pt_regs \<Rightarrow> ebpf_proc_info \<Rightarrow> go_string \<times> go_string" where
  "writeHeader_strings K m ctx info =
     (if GO_VERSION_1_17_0 K \<le> version info then
        (\<lparr>str_ptr = rbx ctx, str_len = rcx ctx\<rparr>, \<lparr>str_ptr = rdi ctx, str_len = rsi ctx\<rparr>)
      else
        (\<lparr>str_ptr = bpf_probe_read (read_ptr m) 0 (rsp ctx + 16),
          str_len = bpf_probe_read (read_ptr m) 0 (rsp ctx + 24)\<rparr>,
         \<lparr>str_ptr = bpf_probe_read (read_ptr m) 0 (rsp ctx + 32),
          str_len = bpf_probe_read (read_ptr m) 0 (rsp ctx + 40)\<rparr>))"

text \<open>The descriptor that the two client write entry points resolve, and the stream
  field of the client connection that they read.\<close>

definition client_write_fd :: "kconsts \<Rightarrow> env \<Rightarrow> memory \<Rightarrow> pt_regs \<Rightarrow> ebpf_proc_info \<Rightarrow> u32" where
  "client_write_fd K E m ctx info =
     get_fd_from_tcp_or_tls_conn_interface E
       (get_the_first_parameter K m ctx info + offsets info OFFSET_IDX_TCONN_HTTP2_CLIENT_CONN)
       info"

definition client_stream_field :: "kconsts \<Rightarrow> memory \<Rightarrow> pt_regs \<Rightarrow> ebpf_proc_info \<Rightarrow> addr" where
  "client_stream_field K m ctx info =
     get_the_first_parameter K m ctx info + offsets info OFFSET_IDX_STREAM_HTTP2_CLIENT_CONN"

section \<open>A concrete process, used for the instances below\<close>

text \<open>Values for the constants that this file does not define: the version encoding
  \<open>(1 << 16) + (17 << 8)\<close>, a buffer capacity of 1248, a record header of 128 bytes,
  request, response and request-end as 1, 2, 3, the Linux address families and socket
  offsets, the connection key \<open>tgid << 32 | fd\<close>, and entries valid when their uid is
  not zero.\<close>

definition ex_K :: kconsts where
  "ex_K = \<lparr>GO_VERSION_1_17_0 = 0x011100, HTTP2_BUFFER_INFO_SIZE = 1248,
            SOCKET_DATA_OFFSET = 128, MSG_REQUEST = 1, MSG_RESPONSE = 2, MSG_REQUEST_END = 3,
            PF_INET = 2, PF_INET6 = 10, IPPROTO_TCP = 6,
            STRUCT_SOCK_FAMILY_OFFSET = 16, STRUCT_SOCK_DPORT_OFFSET = 12,
            STRUCT_SOCK_SPORT_OFFSET = 14, STRUCT_SOCK_SADDR_OFFSET = 4,
            STRUCT_SOCK_DADDR_OFFSET = 0, STRUCT_SOCK_IP6SADDR_OFFSET = 72,
            gen_conn_key_id = (\<lambda>a b. push_bit 32 a OR b),
            socket_info_ok = (\<lambda>si. uid si \<noteq> 0)\<rparr>"

text \<open>A process of the given Go version; every offset is 16.\<close>

definition ex_info :: "u32 \<Rightarrow> ebpf_proc_info" where
  "ex_info v = \<lparr>version = v, offsets = (\<lambda>_. 16), credentials_syscallConn_itab = 0xABCD\<rparr>"

definition ex_ctx :: pt_regs where
  "ex_ctx = \<lparr>rax = 0x1000, rbx = 0x2000, rcx = 2000, rdi = 0x3000, rsi = 5, r8 = 0,
              rsp = 0x7000\<rparr>"

text \<open>The header fields \<open>(":method", "POST")\<close> and \<open>(":path", "/svc/Method")\<close>, by
  address and length.\<close>

definition ex_field0 :: go_http2_header_field where
  "ex_field0 = \<lparr>hf_name = \<lparr>str_ptr = 0x6100, str_len = 7\<rparr>,
                 hf_value = \<lparr>str_ptr = 0x6200, str_len = 4\<rparr>, hf_sensitive = False\<rparr>"

definition ex_field1 :: go_http2_header_field where
  "ex_field1 = \<lparr>hf_name = \<lparr>str_ptr = 0x6300, str_len = 5\<rparr>,
                 hf_value = \<lparr>str_ptr = 0x6400, str_len = 11\<rparr>, hf_sensitive = False\<rparr>"

text \<open>A field whose name and value are 700 bytes each.\<close>

definition ex_field_big :: go_http2_header_field where
  "ex_field_big = \<lparr>hf_name = \<lparr>str_ptr = 0x6900, str_len = 700\<rparr>,
                    hf_value = \<lparr>str_ptr = 0x6D00, str_len = 700\<rparr>, hf_sensitive = False\<rparr>"

text \<open>Memory: the first argument \<open>0x1000\<close> on the stack at \<open>rsp + 8\<close>; the stream
  counter \<open>1\<close> at \<open>0x1010\<close>; a wrapper interface at \<open>0x1010\<close> whose data pointer
  \<open>0x4000\<close> leads to the inner interface; two header fields at \<open>0x6000\<close> and the
  large field at \<open>0x6800\<close>; a socket at \<open>0x9000\<close> of family 10.\<close>

definition ex_mem :: memory where
  "ex_mem = \<lparr>read_ptr = (\<lambda>a. if a = 0x7008 then Some 0x1000 else None),
              read_u32 = (\<lambda>a. if a = 0x1010 then Some 1 else None),
              read_u16 = (\<lambda>a. if a = 0x9010 then Some 10 else None),
              read_interface =
                (\<lambda>a. if a = 0x1010 then Some \<lparr>if_type = 0xABCD, if_ptr = 0x4000\<rparr>
                     else if a = 0x4000 then Some \<lparr>if_type = 0x77, if_ptr = 0x5000\<rparr>
                     else None),
              read_header_field =
                (\<lambda>p idx. if p = 0x6000 \<and> idx = 0 then Some ex_field0
                         else if p = 0x6000 \<and> idx = 1 then Some ex_field1
                         else if p = 0x6800 \<and> idx = 0 then Some ex_field_big else None),
              byte_at = (\<lambda>a. ucast a),
              readable = (\<lambda>a n. True)\<rparr>"

text \<open>An invocation in thread 101 of process 100; the argument is the write sequence
  that the kernel reports for every descriptor. The read sequence is 150. The connection
  at \<open>0x5000\<close> has the descriptor 7, any other the descriptor 8.\<close>

definition ex_env :: "u32 \<Rightarrow> env" where
  "ex_env wseq = \<lparr>pid_tgid = 0x6400000065, current_goroutine = 1, ktime_get_ns = 5,
                   current_comm = [], tcp_read_seq_from_fd = (\<lambda>fd. 150),
                   tcp_write_seq_from_fd = (\<lambda>fd. wseq),
                   socket_from_fd = (\<lambda>fd off. 0x9000),
                   fd_from_tcp_or_tls_conn_interface = (\<lambda>p info. if p = 0x5000 then 7 else 8)\<rparr>"

definition zero_stack :: http2_stack where
  "zero_stack =
     \<lparr>st_len = 0, st_events_num = 0,
      st_send_buffer =
        \<lparr>sd_source = DATA_SOURCE_OTHER, sd_coroutine_id = 0, sd_timestamp = 0, sd_comm = [],
         sd_tcp_seq = 0, sd_direction = T_EGRESS, sd_data_type = PROTO_UNKNOWN,
         sd_tuple = \<lparr>tp_l4_protocol = 0, tp_dport = 0, tp_num = 0,
                      tp_rcv_saddr = replicate 16 0, tp_daddr = replicate 16 0,
                      tp_addr_len = 0\<rparr>,
         sd_socket_id = 0, sd_tgid = 0, sd_pid = 0, sd_msg_type = 0, sd_syscall_len = 0,
         sd_data_len = 0\<rparr>,
      st_http2_buffer = \<lparr>hb_fd = 0, hb_stream_id = 0, hb_header_len = 0, hb_value_len = 0,
                          hb_info = replicate 2272 0\<rparr>\<rparr>"

text \<open>The maps before the first event: a zeroed scratch stack, the begin sequence 100
  stored under (tgid 100, fd 7, end 150), the process 100 known with Go 1.18, the socket-id
  counter at 41, no socket known.\<close>

definition ex_maps :: bpf_maps where
  "ex_maps =
     \<lparr>http2_stack_map = Some zero_stack, http2_tls = False,
      http2_tcp_seq_map =
        (\<lambda>k. if k = \<lparr>key_tgid = 100, key_fd = 7, key_tcp_seq_end = 150\<rparr> then Some 100 else None),
      proc_info_map = (\<lambda>pid. if pid = 100 then Some (ex_info 0x011200) else None),
      members_offset = Some \<lparr>ready = True\<rparr>,
      trace_uid_map = Some \<lparr>socket_id = 41\<rparr>,
      socket_info_map = (\<lambda>k. None),
      trace_stats_map = Some \<lparr>socket_map_count = 0\<rparr>,
      socket_data_out = []\<rparr>"

text \<open>A header block of two fields on stream 1 and descriptor 7, read by a server
  (\<open>ex_headers True\<close>) or written (\<open>ex_headers False\<close>).\<close>

definition ex_headers :: "bool \<Rightarrow> http2_headers_data" where
  "ex_headers rd = \<lparr>hs_read = rd, hs_fd = 7,
                      hs_fields = \<lparr>slice_ptr = 0x6000, slice_len = 2, slice_cap = 2\<rparr>,
                      hs_stream = 1, hs_message_type = 1, hs_ctx = Some ex_ctx\<rparr>"

text \<open>A header block of the one large field, written on descriptor 7.\<close>

definition ex_headers_big :: http2_headers_data where
  "ex_headers_big = \<lparr>hs_read = False, hs_fd = 7,
                      hs_fields = \<lparr>slice_ptr = 0x6800, slice_len = 1, slice_cap = 1\<rparr>,
                      hs_stream = 1, hs_message_type = 1, hs_ctx = Some ex_ctx\<rparr>"

text \<open>The maps with a scratch stack whose send buffer holds the sequence number 100 and
  the payload length \<open>n\<close>.\<close>

definition ex_ready_maps :: "u32 \<Rightarrow> bpf_maps" where
  "ex_ready_maps n =
     ex_maps\<lparr>http2_stack_map :=
       Some (zero_stack\<lparr>st_send_buffer :=
               (st_send_buffer zero_stack)\<lparr>sd_tcp_seq := 100, sd_syscall_len := n\<rparr>\<rparr>)\<rparr>"

text \<open>A single header whose name has length 2000 and whose value has length 5.\<close>

definition ex_data :: http2_header_data where
  "ex_data = \<lparr>hd_read = False, hd_message_type = 1, hd_fd = 7,
               hd_name = \<lparr>str_ptr = 0x2000, str_len = 2000\<rparr>,
               hd_value = \<lparr>str_ptr = 0x3000, str_len = 5\<rparr>,
               hd_stream = 1, hd_ctx = Some ex_ctx\<rparr>"

text \<open>The sizes passed to the event channel by \<open>report_http2_header\<close> when the send
  buffer holds the payload length \<open>n\<close>.\<close>

definition ex_report_sizes :: "u32 \<Rightarrow> u32 list" where
  "ex_report_sizes n =
     map pe_size (new_events (ex_ready_maps n)
                    (report_http2_header ex_K (Some ex_ctx) (ex_ready_maps n)))"

text \<open>Two invocations in a row on the same scratch stack, which starts zeroed: the first
  while the kernel reports the write sequence 1000, the second while it reports 0.\<close>

definition ex_first_run :: bpf_maps where
  "ex_first_run = submit_http2_headers ex_K (ex_env 1000) ex_mem (ex_headers False) ex_maps"

definition ex_second_run :: bpf_maps where
  "ex_second_run = submit_http2_headers ex_K (ex_env 0) ex_mem (ex_headers False) ex_first_run"

text \<open>Two enrichments in a row for the descriptor 7 of process 100, and the send of
  \<open>ex_data\<close> after the first.\<close>

definition ex_enrich1 :: "socket_data \<times> bpf_maps" where
  "ex_enrich1 =
     http2_fill_common_socket ex_K (ex_env 1000) ex_mem ex_data (st_send_buffer zero_stack, ex_maps)"

definition ex_enrich2 :: "socket_data \<times> bpf_maps" where
  "ex_enrich2 =
     http2_fill_common_socket ex_K (ex_env 2000) ex_mem ex_data (fst ex_enrich1, snd ex_enrich1)"

definition ex_sent :: bpf_maps where
  "ex_sent =
     http2_fill_buffer_and_send ex_K ex_mem ex_data
       ((snd ex_enrich1)\<lparr>http2_stack_map := Some (zero_stack\<lparr>st_send_buffer := fst ex_enrich1\<rparr>)\<rparr>)"

section \<open>Properties of the ABI resolver and of the sequence lookup\<close>

text \<open>C3. \<open>get_the_first_parameter\<close> gives \<open>rax\<close> when the stored version is at or above
  the value of \<open>GO_VERSION(1, 17, 0)\<close>, and otherwise the machine word read at \<open>rsp + 8\<close>.
  For two call sites that pass the same first argument \<open>a\<close>, one under the register
  convention in a process at or above the boundary and one under the stack convention in
  a process below it, both calls give \<open>a\<close>.\<close>

theorem get_the_first_parameter_eras:
  "(GO_VERSION_1_17_0 K \<le> version info \<longrightarrow> get_the_first_parameter K m ctx info = rax ctx) \<and>
   (version info < GO_VERSION_1_17_0 K \<longrightarrow> read_ptr m (rsp ctx + 8) = Some w \<longrightarrow>
      get_the_first_parameter K m ctx info = w) \<and>
   (GO_VERSION_1_17_0 K \<le> version info_new \<longrightarrow> version info_old < GO_VERSION_1_17_0 K \<longrightarrow>
      first_argument_in_register ctx_new a \<longrightarrow> first_argument_on_stack m_old ctx_old a \<longrightarrow>
      get_the_first_parameter K m_new ctx_new info_new = a \<and>
      get_the_first_parameter K m_old ctx_old info_old = a)"
  by (simp add: get_the_first_parameter_def bpf_probe_read_def first_argument_in_register_def
      first_argument_on_stack_def not_le [symmetric])

theorem get_the_first_parameter_eras_witness:
  "get_the_first_parameter ex_K ex_mem ex_ctx (ex_info 0x011200) = 0x1000 \<and>
   get_the_first_parameter ex_K ex_mem ex_ctx (ex_info 0x011000) = 0x1000"
  using get_the_first_parameter_eras [where K = ex_K and info_new = "ex_info 0x011200"
      and info_old = "ex_info 0x011000" and ctx_new = ex_ctx and ctx_old = ex_ctx
      and m_old = ex_mem and m_new = ex_mem and a = "0x1000"]
  by (simp add: ex_K_def ex_info_def ex_ctx_def ex_mem_def first_argument_in_register_def
      first_argument_on_stack_def)

text \<open>C4. After a begin value is stored under the key (tgid, fd, end sequence),
  \<open>get_previous_read_tcp_seq\<close> for that descriptor and end sequence gives the stored
  value; for a key with no entry it gives 0; a store under another end sequence does not
  change the answer.\<close>

theorem get_previous_read_tcp_seq_lookup:
  "get_previous_read_tcp_seq E
     (http2_tcp_seq_store \<lparr>key_tgid = ucast (drop_bit 32 (pid_tgid E)), key_fd = fd,
                            key_tcp_seq_end = seq_end\<rparr> seq_begin g) fd seq_end = seq_begin \<and>
   (http2_tcp_seq_map g \<lparr>key_tgid = ucast (drop_bit 32 (pid_tgid E)), key_fd = fd,
                          key_tcp_seq_end = other\<rparr> = None \<longrightarrow>
      get_previous_read_tcp_seq E g fd other = 0) \<and>
   (other \<noteq> seq_end \<longrightarrow>
      get_previous_read_tcp_seq E
        (http2_tcp_seq_store \<lparr>key_tgid = ucast (drop_bit 32 (pid_tgid E)), key_fd = fd,
                               key_tcp_seq_end = seq_end\<rparr> seq_begin g) fd other =
      get_previous_read_tcp_seq E g fd other)"
  by (simp add: get_previous_read_tcp_seq_def http2_tcp_seq_store_def)

theorem get_previous_read_tcp_seq_lookup_witness:
  "get_previous_read_tcp_seq (ex_env 0)
     (http2_tcp_seq_store \<lparr>key_tgid = 100, key_fd = 7, key_tcp_seq_end = 150\<rparr> 100
        (ex_maps\<lparr>http2_tcp_seq_map := (\<lambda>k. None)\<rparr>)) 7 150 = 100 \<and>
   get_previous_read_tcp_seq (ex_env 0)
     (http2_tcp_seq_store \<lparr>key_tgid = 100, key_fd = 7, key_tcp_seq_end = 150\<rparr> 100
        (ex_maps\<lparr>http2_tcp_seq_map := (\<lambda>k. None)\<rparr>)) 7 151 = 0"
proof -
  have t: "(ucast (drop_bit 32 (pid_tgid (ex_env 0))) :: u32) = 100"
    by (simp add: ex_env_def)
  show ?thesis
    using get_previous_read_tcp_seq_lookup [where E = "ex_env 0" and fd = 7 and seq_end = 150
        and seq_begin = 100 and other = 151
        and g = "ex_maps\<lparr>http2_tcp_seq_map := (\<lambda>k. None)\<rparr>"]
    by (simp add: t)
qed

section \<open>The emitter: gate, lengths and sizes\<close>

lemma and_1023: "(x :: 'a::len word) AND 1023 = take_bit 10 x"
proof -
  have "(1023 :: 'a word) = mask 10" by (simp add: mask_eq_exp_minus_1)
  then show ?thesis by (simp add: take_bit_eq_mask)
qed

lemma unat_and_1023: "unat ((x :: 'a::len word) AND 1023) = unat x mod 1024"
proof -
  have "unat (take_bit 10 x) = take_bit 10 (unat x)"
    by (rule unsigned_take_bit_eq)
  then show ?thesis
    by (simp add: and_1023 take_bit_eq_mod)
qed

lemma unat_masked_len: "unat (masked_len s) = unat (str_len s) mod 1024"
proof -
  have "unat (ucast (str_len s AND 0x03FF) :: u32) = unat (str_len s AND 0x03FF) mod 2 ^ 32"
    by (simp add: unsigned_ucast_eq take_bit_eq_mod)
  also have "\<dots> = unat (str_len s) mod 1024"
    unfolding unat_and_1023 by simp
  finally show ?thesis by (simp add: masked_len_def)
qed

lemma unat_report_send_size: "unat (report_send_size len) = 1 + (unat len + 8) mod 1024"
proof -
  have a: "unat ((len + 8) AND 1023) = (unat len + 8) mod 1024"
  proof -
    have "unat ((len + 8) AND 1023) = unat (len + 8) mod 1024"
      by (rule unat_and_1023)
    also have "unat (len + 8) = (unat len + 8) mod 2 ^ 32"
      by (simp add: unat_word_ariths)
    also have "(unat len + 8) mod 2 ^ 32 mod 1024 = (unat len + 8) mod 1024"
      by (simp add: mod_mod_cancel)
    finally show ?thesis .
  qed
  have "unat (1 + ((len + 8) AND 1023)) = (1 + unat ((len + 8) AND 1023)) mod 2 ^ 32"
    by (simp add: unat_word_ariths)
  also have "\<dots> = 1 + (unat len + 8) mod 1024"
    unfolding a by simp
  finally show ?thesis by (simp add: report_send_size_def)
qed

lemma masked_len_zero [simp]: "masked_len (s\<lparr>str_len := 0\<rparr>) = 0"
  by (simp add: masked_len_def)

lemma new_events_append: "socket_data_out g' = socket_data_out g @ evs \<Longrightarrow> new_events g g' = evs"
  by (simp add: new_events_def)

lemma new_events_same: "socket_data_out g' = socket_data_out g \<Longrightarrow> new_events g' = new_events g"
  by (simp add: new_events_def fun_eq_iff)

lemma report_out:
  "http2_stack_map g = Some stack \<Longrightarrow>
   report_http2_header K (Some c) g =
     g\<lparr>http2_stack_map := Some (stack\<lparr>st_events_num := 1,
            st_len := SOCKET_DATA_OFFSET K + sd_syscall_len (st_send_buffer stack)\<rparr>),
       socket_data_out := socket_data_out g @
         [\<lparr>pe_raw = stack\<lparr>st_events_num := 1,
              st_len := SOCKET_DATA_OFFSET K + sd_syscall_len (st_send_buffer stack)\<rparr>,
           pe_size = report_send_size (SOCKET_DATA_OFFSET K + sd_syscall_len (st_send_buffer stack))\<rparr>]\<rparr>"
  by (simp add: report_http2_header_def Let_def)

lemma fbs_gate_closed:
  "\<not> seq_ready g \<Longrightarrow> http2_fill_buffer_and_send K m data g = g"
  by (simp add: http2_fill_buffer_and_send_def seq_ready_def split: option.splits)

lemma fbs_out:
  assumes "seq_ready g" and "hd_ctx data = Some c"
  shows "\<exists>evs. socket_data_out (http2_fill_buffer_and_send K m data g) = socket_data_out g @ evs \<and>
           map ev_summary evs =
             (if fits_buffer K (hd_name data) (hd_value data)
              then [(hd_message_type data, masked_len (hd_name data), masked_len (hd_value data))]
              else [])"
    and "seq_ready (http2_fill_buffer_and_send K m data g)"
  using assms
  by (auto simp add: http2_fill_buffer_and_send_def seq_ready_def Let_def report_out
      fits_buffer_def masked_len_def ev_summary_def split: option.splits)

lemma fbs_lens:
  assumes "seq_ready g"
  shows "map_option (\<lambda>s. (hb_header_len (st_http2_buffer s), hb_value_len (st_http2_buffer s)))
           (http2_stack_map (http2_fill_buffer_and_send K m data g)) =
         Some (masked_len (hd_name data), masked_len (hd_value data))"
  using assms
  by (cases "hd_ctx data")
     (auto simp add: http2_fill_buffer_and_send_def seq_ready_def Let_def report_http2_header_def
       masked_len_def split: option.splits)

lemma fbs_new_events:
  "http2_stack_map g = Some stack \<Longrightarrow>
   ev \<in> set (new_events g (http2_fill_buffer_and_send K m data g)) \<Longrightarrow>
   ev_tuple ev = sd_tuple (st_send_buffer stack) \<and> ev_stream_id ev = hd_stream data"
  by (cases "hd_ctx data")
     (auto simp add: http2_fill_buffer_and_send_def new_events_def Let_def report_http2_header_def
       ev_tuple_def ev_stream_id_def split: if_splits)

lemma fcs_out:
  "socket_data_out (snd (http2_fill_common_socket K E m data (sb, g))) = socket_data_out g"
  by (simp add: http2_fill_common_socket_def fill_socket_id_def Let_def
      split: option.splits)

lemma fcs_seq:
  "sd_tcp_seq (fst (http2_fill_common_socket K E m data (sb, g))) =
     (if resolved_tcp_seq E g (hd_read data) (hd_fd data) = 0 then sd_tcp_seq sb
      else resolved_tcp_seq E g (hd_read data) (hd_fd data))"
  by (simp add: http2_fill_common_socket_def fill_socket_id_def Let_def
      split: option.splits)

lemma length_loop_fields:
  "length (loop_fields n m headers idx field) =
     min n (nat (sint (slice_len (hs_fields headers)) - int idx))"
  by (induction n arbitrary: idx field) (auto simp add: Let_def)

lemma loop_closed:
  "\<not> seq_ready g \<Longrightarrow> snd (snd (submit_loop n K m headers idx (field, data, g))) = g"
  by (induction n arbitrary: idx field data) (simp_all add: Let_def fbs_gate_closed)

lemma loop_out:
  assumes "seq_ready g" and "hd_ctx data = Some c"
  shows "case submit_loop n K m headers idx (field, data, g) of (field', data', g') \<Rightarrow>
           seq_ready g' \<and> hd_ctx data' = Some c \<and> hd_message_type data' = hd_message_type data \<and>
           (\<exists>evs. socket_data_out g' = socket_data_out g @ evs \<and>
              map ev_summary evs =
                map (\<lambda>f. (hd_message_type data, masked_len (hf_name f), masked_len (hf_value f)))
                  (filter (\<lambda>f. fits_buffer K (hf_name f) (hf_value f))
                     (loop_fields n m headers idx field)))"
  using assms
proof (induction n arbitrary: idx field data g)
  case 0
  then show ?case by simp
next
  case (Suc n)
  show ?case
  proof (cases "sint (slice_len (hs_fields headers)) \<le> int idx")
    case True
    with Suc.prems show ?thesis by simp
  next
    case False
    define field1 where "field1 = bpf_probe_read (\<lambda>p. read_header_field m p idx) field
                           (slice_ptr (hs_fields headers))"
    define data1 where "data1 = data\<lparr>hd_name := hf_name field1, hd_value := hf_value field1\<rparr>"
    define g1 where "g1 = http2_fill_buffer_and_send K m data1 g"
    have c1: "hd_ctx data1 = Some c" and t1: "hd_message_type data1 = hd_message_type data"
      using Suc.prems by (simp_all add: data1_def)
    have r1: "seq_ready g1"
      unfolding g1_def using Suc.prems(1) c1 by (rule fbs_out(2))
    obtain evs1 where o1: "socket_data_out g1 = socket_data_out g @ evs1"
      and s1: "map ev_summary evs1 =
             (if fits_buffer K (hf_name field1) (hf_value field1)
              then [(hd_message_type data, masked_len (hf_name field1), masked_len (hf_value field1))]
              else [])"
      using fbs_out(1) [OF Suc.prems(1) c1, of K m] by (auto simp add: g1_def data1_def)
    have step: "submit_loop (Suc n) K m headers idx (field, data, g) =
                submit_loop n K m headers (Suc idx) (field1, data1, g1)"
      using False by (simp add: Let_def field1_def data1_def g1_def)
    have lf: "loop_fields (Suc n) m headers idx field =
                field1 # loop_fields n m headers (Suc idx) field1"
      using False by (simp add: Let_def field1_def)
    obtain field' data' g' where res:
      "submit_loop n K m headers (Suc idx) (field1, data1, g1) = (field', data', g')"
      by (cases "submit_loop n K m headers (Suc idx) (field1, data1, g1)") auto
    from Suc.IH [OF r1 c1, of "Suc idx" field1] res
    obtain evs where ih: "seq_ready g'" "hd_ctx data' = Some c"
      "hd_message_type data' = hd_message_type data1"
      "socket_data_out g' = socket_data_out g1 @ evs"
      "map ev_summary evs =
         map (\<lambda>f. (hd_message_type data1, masked_len (hf_name f), masked_len (hf_value f)))
           (filter (\<lambda>f. fits_buffer K (hf_name f) (hf_value f))
              (loop_fields n m headers (Suc idx) field1))"
      by auto
    show ?thesis
      unfolding step res lf using ih o1 s1 t1
      by (cases "fits_buffer K (hf_name field1) (hf_value field1)") auto
  qed
qed

text \<open>What \<open>submit_http2_headers\<close> writes when the gate is open, whether the sequence
  number in the send buffer was resolved by this call or was already there.\<close>

lemma submit_records:
  assumes stack: "http2_stack_map g = Some stack"
      and ctx: "hs_ctx headers = Some c"
      and gate: "resolved_tcp_seq E g (hs_read headers) (hs_fd headers) \<noteq> 0
                 \<or> sd_tcp_seq (st_send_buffer stack) \<noteq> 0"
      and cap: "16 \<le> HTTP2_BUFFER_INFO_SIZE K"
  shows "socket_data_out (submit_http2_headers K E m headers g) =
           socket_data_out g @ new_events g (submit_http2_headers K E m headers g)"
    and "map ev_summary (new_events g (submit_http2_headers K E m headers g)) =
             map (\<lambda>f. (hs_message_type headers, masked_len (hf_name f), masked_len (hf_value f)))
               (filter (\<lambda>f. fits_buffer K (hf_name f) (hf_value f))
                  (loop_fields 9 m headers 0 zero_field))
             @ [(hs_message_type headers + 2, 0, 0)]"
    and "seq_ready (submit_http2_headers K E m headers g)"
proof -
  define data where "data = \<lparr>hd_read = hs_read headers, hd_message_type = hs_message_type headers,
                   hd_fd = hs_fd headers, hd_name = zero_string, hd_value = zero_string,
                   hd_stream = hs_stream headers, hd_ctx = hs_ctx headers\<rparr>"
  define r where "r = http2_fill_common_socket K E m data (st_send_buffer stack, g)"
  define g2 where "g2 = (snd r)\<lparr>http2_stack_map := Some (stack\<lparr>st_send_buffer := fst r\<rparr>)\<rparr>"
  have dc: "hd_ctx data = Some c" and dt: "hd_message_type data = hs_message_type headers"
    by (simp_all add: data_def ctx)
  have "sd_tcp_seq (fst r) \<noteq> 0"
    unfolding r_def fcs_seq using gate by (auto simp add: data_def)
  then have r2: "seq_ready g2"
    by (simp add: seq_ready_def g2_def)
  have o2: "socket_data_out g2 = socket_data_out g"
    by (simp add: g2_def r_def fcs_out)
  obtain field' data1 g3 where res:
    "submit_loop 9 K m headers 0 (zero_field, data, g2) = (field', data1, g3)"
    by (cases "submit_loop 9 K m headers 0 (zero_field, data, g2)") auto
  from loop_out [OF r2 dc, where n = 9 and K = K and m = m and headers = headers
      and idx = 0 and field = zero_field] res
  obtain evs where lp: "seq_ready g3" "hd_ctx data1 = Some c"
    "hd_message_type data1 = hs_message_type headers"
    "socket_data_out g3 = socket_data_out g2 @ evs"
    "map ev_summary evs =
       map (\<lambda>f. (hs_message_type headers, masked_len (hf_name f), masked_len (hf_value f)))
         (filter (\<lambda>f. fits_buffer K (hf_name f) (hf_value f))
            (loop_fields 9 m headers 0 zero_field))"
    by (auto simp add: dt)
  define data4 where "data4 = data1\<lparr>hd_name := (hd_name data1)\<lparr>str_len := 0\<rparr>,
      hd_value := (hd_value data1)\<lparr>str_len := 0\<rparr>,
      hd_message_type := hd_message_type data1 + 2\<rparr>"
  have c4: "hd_ctx data4 = Some c"
    by (simp add: data4_def lp)
  have f4: "fits_buffer K (hd_name data4) (hd_value data4)"
    using cap by (simp add: fits_buffer_def data4_def not_less)
  from fbs_out(1) [OF lp(1) c4, of K m] f4
  obtain evs4 where o4: "socket_data_out (http2_fill_buffer_and_send K m data4 g3) =
      socket_data_out g3 @ evs4"
    and s4: "map ev_summary evs4 = [(hs_message_type headers + 2, 0, 0)]"
    by (auto simp add: data4_def lp)
  have sub: "submit_http2_headers K E m headers g = http2_fill_buffer_and_send K m data4 g3"
    using stack res
    by (simp add: submit_http2_headers_def Let_def data_def [symmetric] r_def [symmetric]
        g2_def [symmetric] data4_def split_beta)
  have out: "socket_data_out (submit_http2_headers K E m headers g) =
               socket_data_out g @ (evs @ evs4)"
    unfolding sub o4 lp(4) o2 by simp
  then have ne: "new_events g (submit_http2_headers K E m headers g) = evs @ evs4"
    by (rule new_events_append)
  show "socket_data_out (submit_http2_headers K E m headers g) =
           socket_data_out g @ new_events g (submit_http2_headers K E m headers g)"
    unfolding ne by (rule out)
  show "map ev_summary (new_events g (submit_http2_headers K E m headers g)) =
             map (\<lambda>f. (hs_message_type headers, masked_len (hf_name f), masked_len (hf_value f)))
               (filter (\<lambda>f. fits_buffer K (hf_name f) (hf_value f))
                  (loop_fields 9 m headers 0 zero_field))
             @ [(hs_message_type headers + 2, 0, 0)]"
    unfolding ne using lp(5) s4 by simp
  show "seq_ready (submit_http2_headers K E m headers g)"
    unfolding sub using lp(1) c4 by (rule fbs_out(2))
qed

text \<open>With the gate closed, \<open>submit_http2_headers\<close> writes nothing.\<close>

lemma submit_closed:
  assumes stack: "http2_stack_map g = Some stack"
      and zero: "sd_tcp_seq (st_send_buffer stack) = 0"
      and seq: "resolved_tcp_seq E g (hs_read headers) (hs_fd headers) = 0"
  shows "socket_data_out (submit_http2_headers K E m headers g) = socket_data_out g"
proof -
  define data where "data = \<lparr>hd_read = hs_read headers, hd_message_type = hs_message_type headers,
                   hd_fd = hs_fd headers, hd_name = zero_string, hd_value = zero_string,
                   hd_stream = hs_stream headers, hd_ctx = hs_ctx headers\<rparr>"
  define r where "r = http2_fill_common_socket K E m data (st_send_buffer stack, g)"
  define g2 where "g2 = (snd r)\<lparr>http2_stack_map := Some (stack\<lparr>st_send_buffer := fst r\<rparr>)\<rparr>"
  have "sd_tcp_seq (fst r) = 0"
    unfolding r_def fcs_seq using seq zero by (simp add: data_def)
  then have r2: "\<not> seq_ready g2"
    by (simp add: seq_ready_def g2_def)
  have o2: "socket_data_out g2 = socket_data_out g"
    by (simp add: g2_def r_def fcs_out)
  obtain field' data1 g3 where res:
    "submit_loop 9 K m headers 0 (zero_field, data, g2) = (field', data1, g3)"
    by (cases "submit_loop 9 K m headers 0 (zero_field, data, g2)") auto
  have g3: "g3 = g2"
    using loop_closed [OF r2, of 9 K m headers 0 zero_field data] res by simp
  have "submit_http2_headers K E m headers g = g2"
    using stack res r2
    by (simp add: submit_http2_headers_def Let_def data_def [symmetric] r_def [symmetric]
        g2_def [symmetric] split_beta g3 fbs_gate_closed)
  then show ?thesis
    by (simp add: o2)
qed

subsection \<open>The concrete process under the emitter\<close>

lemma loop_fields_numeral:
  "loop_fields (numeral k) m headers idx field =
     (if sint (slice_len (hs_fields headers)) \<le> int idx then []
      else bpf_probe_read (\<lambda>p. read_header_field m p idx) field (slice_ptr (hs_fields headers))
             # loop_fields (pred_numeral k) m headers (Suc idx)
                 (bpf_probe_read (\<lambda>p. read_header_field m p idx) field
                    (slice_ptr (hs_fields headers))))"
  by (simp add: numeral_eq_Suc Let_def)

lemma ex_loop_fields: "loop_fields 9 ex_mem (ex_headers rd) 0 zero_field = [ex_field0, ex_field1]"
  by (simp add: loop_fields_numeral ex_mem_def ex_headers_def bpf_probe_read_def)

lemma ex_loop_fields_big: "loop_fields 9 ex_mem ex_headers_big 0 zero_field = [ex_field_big]"
  by (simp add: loop_fields_numeral ex_mem_def ex_headers_big_def bpf_probe_read_def)

lemma ex_fits:
  "fits_buffer ex_K (hf_name ex_field0) (hf_value ex_field0)"
  "fits_buffer ex_K (hf_name ex_field1) (hf_value ex_field1)"
  "\<not> fits_buffer ex_K (hf_name ex_field_big) (hf_value ex_field_big)"
  by (simp_all add: fits_buffer_def masked_len_def ex_K_def ex_field0_def ex_field1_def
      ex_field_big_def)

lemma ex_masked:
  "masked_len (hf_name ex_field0) = 7" "masked_len (hf_value ex_field0) = 4"
  "masked_len (hf_name ex_field1) = 5" "masked_len (hf_value ex_field1) = 11"
  by (simp_all add: masked_len_def ex_field0_def ex_field1_def)

lemma ex_resolved:
  "resolved_tcp_seq (ex_env w) g False fd = w"
  "resolved_tcp_seq (ex_env w) ex_maps True 7 = 100"
  "resolved_tcp_seq (ex_env w) ex_maps True 9 = 0"
  by (simp_all add: resolved_tcp_seq_def get_previous_read_tcp_seq_def ex_env_def ex_maps_def)

lemma ex_stack:
  "http2_stack_map ex_maps = Some zero_stack"
  "sd_tcp_seq (st_send_buffer zero_stack) = 0"
  "socket_data_out ex_maps = []"
  "16 \<le> HTTP2_BUFFER_INFO_SIZE ex_K"
  by (simp_all add: ex_maps_def zero_stack_def ex_K_def)

lemma ex_ready:
  "seq_ready (ex_ready_maps n)"
  "socket_data_out (ex_ready_maps n) = []"
  by (simp_all add: seq_ready_def ex_ready_maps_def ex_maps_def zero_stack_def)

lemma ex_report_sizes_eq:
  "ex_report_sizes n = [report_send_size (128 + n)]"
  by (simp add: ex_report_sizes_def report_http2_header_def Let_def new_events_def
      ex_ready_maps_def ex_maps_def zero_stack_def ex_K_def)

subsection \<open>Claims about the emitter\<close>

text \<open>C1, as amended. When the scratch stack and the call context are there, the
  enrichment resolves a nonzero sequence number and the buffer capacity is at least 16,
  \<open>submit_http2_headers\<close> appends to the event channel, in order, one record of the base
  message kind for each of the first \<open>min N 9\<close> fields whose \<open>16 +\<close> masked name length
  \<open>+\<close> masked value length does not exceed \<open>HTTP2_BUFFER_INFO_SIZE\<close>, and then exactly one
  record of kind base \<open>+ 2\<close> with name and value lengths zero. So it writes exactly
  \<open>min N 9\<close> field records when every field fits. \<open>N\<close> is the slice length, read as a
  signed number.\<close>

theorem submit_http2_headers_records:
  assumes "http2_stack_map g = Some stack"
      and "hs_ctx headers = Some c"
      and "resolved_tcp_seq E g (hs_read headers) (hs_fd headers) \<noteq> 0"
      and "16 \<le> HTTP2_BUFFER_INFO_SIZE K"
  shows "socket_data_out (submit_http2_headers K E m headers g) =
           socket_data_out g @ new_events g (submit_http2_headers K E m headers g) \<and>
         map ev_summary (new_events g (submit_http2_headers K E m headers g)) =
             map (\<lambda>f. (hs_message_type headers, masked_len (hf_name f), masked_len (hf_value f)))
               (filter (\<lambda>f. fits_buffer K (hf_name f) (hf_value f))
                  (loop_fields 9 m headers 0 zero_field))
             @ [(hs_message_type headers + 2, 0, 0)] \<and>
         length (loop_fields 9 m headers 0 zero_field) =
           min (nat (sint (slice_len (hs_fields headers)))) 9 \<and>
         ((\<forall>f \<in> set (loop_fields 9 m headers 0 zero_field). fits_buffer K (hf_name f) (hf_value f)) \<longrightarrow>
            map (\<lambda>ev. fst (ev_summary ev)) (new_events g (submit_http2_headers K E m headers g)) =
              replicate (min (nat (sint (slice_len (hs_fields headers)))) 9) (hs_message_type headers)
              @ [hs_message_type headers + 2])"
proof -
  note r = submit_records [OF assms(1) assms(2) disjI1 [OF assms(3)] assms(4), of m]
  have len: "length (loop_fields 9 m headers 0 zero_field) =
           min (nat (sint (slice_len (hs_fields headers)))) 9"
    by (simp add: length_loop_fields min.commute)
  have "map (\<lambda>ev. fst (ev_summary ev)) (new_events g (submit_http2_headers K E m headers g)) =
          replicate (min (nat (sint (slice_len (hs_fields headers)))) 9) (hs_message_type headers)
          @ [hs_message_type headers + 2]"
    if all: "\<forall>f \<in> set (loop_fields 9 m headers 0 zero_field). fits_buffer K (hf_name f) (hf_value f)"
  proof -
    have "map (\<lambda>ev. fst (ev_summary ev)) (new_events g (submit_http2_headers K E m headers g)) =
          map fst (map ev_summary (new_events g (submit_http2_headers K E m headers g)))"
      by simp
    also have "\<dots> = map (\<lambda>f. hs_message_type headers) (loop_fields 9 m headers 0 zero_field)
                  @ [hs_message_type headers + 2]"
      unfolding r(2) using all by (simp add: comp_def)
    also have "map (\<lambda>f. hs_message_type headers) (loop_fields 9 m headers 0 zero_field) =
          replicate (length (loop_fields 9 m headers 0 zero_field)) (hs_message_type headers)"
      by (simp add: map_replicate_const)
    finally show ?thesis
      unfolding len .
  qed
  with r(1) r(2) len show ?thesis
    by blast
qed

theorem submit_http2_headers_records_witness:
  "map ev_summary (new_events ex_maps
      (submit_http2_headers ex_K (ex_env 0) ex_mem (ex_headers True) ex_maps)) =
     [(1, 7, 4), (1, 5, 11), (3, 0, 0)]"
proof -
  have h: "hs_ctx (ex_headers True) = Some ex_ctx" "hs_read (ex_headers True) = True"
    "hs_fd (ex_headers True) = 7" "hs_message_type (ex_headers True) = 1"
    by (simp_all add: ex_headers_def)
  have s: "resolved_tcp_seq (ex_env 0) ex_maps (hs_read (ex_headers True))
             (hs_fd (ex_headers True)) \<noteq> 0"
    by (simp add: h ex_resolved)
  show ?thesis
    using submit_http2_headers_records [OF ex_stack(1) h(1) s ex_stack(4), of ex_mem]
    by (simp add: ex_loop_fields ex_fits ex_masked h)
qed

text \<open>The claim as stated fails: a block of two fields read on a descriptor whose end
  sequence was never stored resolves the sequence number 0 and writes no record, not even
  the terminal one; and a block of one field that does not fit the buffer writes the
  terminal record alone.\<close>

theorem submit_http2_headers_counterexample:
  "slice_len (hs_fields ((ex_headers True)\<lparr>hs_fd := 9\<rparr>)) = 2 \<and>
   socket_data_out (submit_http2_headers ex_K (ex_env 0) ex_mem ((ex_headers True)\<lparr>hs_fd := 9\<rparr>)
      ex_maps) = [] \<and>
   slice_len (hs_fields ex_headers_big) = 1 \<and>
   map ev_summary (new_events ex_maps
      (submit_http2_headers ex_K (ex_env 1000) ex_mem ex_headers_big ex_maps)) = [(3, 0, 0)]"
proof -
  have a: "socket_data_out (submit_http2_headers ex_K (ex_env 0) ex_mem
             ((ex_headers True)\<lparr>hs_fd := 9\<rparr>) ex_maps) = socket_data_out ex_maps"
    by (rule submit_closed [OF ex_stack(1) ex_stack(2)]) (simp add: ex_headers_def ex_resolved)
  have h: "hs_ctx ex_headers_big = Some ex_ctx" "hs_message_type ex_headers_big = 1"
    by (simp_all add: ex_headers_big_def)
  have g: "resolved_tcp_seq (ex_env 1000) ex_maps (hs_read ex_headers_big) (hs_fd ex_headers_big) \<noteq> 0
           \<or> sd_tcp_seq (st_send_buffer zero_stack) \<noteq> 0"
    by (simp add: ex_headers_big_def ex_resolved)
  have b: "map ev_summary (new_events ex_maps
      (submit_http2_headers ex_K (ex_env 1000) ex_mem ex_headers_big ex_maps)) = [(3, 0, 0)]"
    using submit_records(2) [OF ex_stack(1) h(1) g ex_stack(4), of ex_mem]
    by (simp add: ex_loop_fields_big ex_fits h)
  show ?thesis
    using a b by (simp add: ex_stack ex_headers_def ex_headers_big_def)
qed

text \<open>C2, as amended. When the gate of \<open>http2_fill_buffer_and_send\<close> is open, the name
  and value lengths it stores in the buffer are the source lengths under the mask
  \<open>0x03FF\<close>, that is the lengths modulo 1024 and not a clamp; a name of length 2000 is
  stored with length 976.\<close>

theorem header_lengths_masked:
  assumes "seq_ready g"
  shows "map_option (\<lambda>s. (hb_header_len (st_http2_buffer s), hb_value_len (st_http2_buffer s)))
           (http2_stack_map (http2_fill_buffer_and_send K m data g)) =
         Some (ucast (str_len (hd_name data) AND 0x03FF), ucast (str_len (hd_value data) AND 0x03FF)) \<and>
         unat (ucast (str_len (hd_name data) AND 0x03FF) :: u32) = unat (str_len (hd_name data)) mod 1024 \<and>
         unat (ucast (str_len (hd_value data) AND 0x03FF) :: u32) = unat (str_len (hd_value data)) mod 1024 \<and>
         (str_len (hd_name data) = 2000 \<longrightarrow>
            (ucast (str_len (hd_name data) AND 0x03FF) :: u32) = 976)"
  using fbs_lens [OF assms, of K m data] unat_masked_len [of "hd_name data"]
    unat_masked_len [of "hd_value data"]
  by (auto simp add: masked_len_def)

theorem header_lengths_masked_witness:
  "map_option (\<lambda>s. (hb_header_len (st_http2_buffer s), hb_value_len (st_http2_buffer s)))
     (http2_stack_map (http2_fill_buffer_and_send ex_K ex_mem ex_data (ex_ready_maps 0))) =
   Some (976, 5)"
  using header_lengths_masked [OF ex_ready(1), of ex_K ex_mem ex_data 0]
  by (simp add: ex_data_def)

text \<open>The claim as stated fails at its own example: for a name of length 2000 the stored
  length is 976, which is \<open>2000 & 0x03FF\<close>, and not 464.\<close>

theorem header_lengths_masked_counterexample:
  "str_len (hd_name ex_data) = 2000 \<and>
   map_option (\<lambda>s. hb_header_len (st_http2_buffer s))
     (http2_stack_map (http2_fill_buffer_and_send ex_K ex_mem ex_data (ex_ready_maps 0))) = Some 976 \<and>
   (2000 :: u64) AND 0x03FF \<noteq> 464"
proof -
  have "map_option (\<lambda>s. hb_header_len (st_http2_buffer s))
     (http2_stack_map (http2_fill_buffer_and_send ex_K ex_mem ex_data (ex_ready_maps 0))) =
     map_option fst (map_option (\<lambda>s. (hb_header_len (st_http2_buffer s), hb_value_len (st_http2_buffer s)))
     (http2_stack_map (http2_fill_buffer_and_send ex_K ex_mem ex_data (ex_ready_maps 0))))"
    by (simp add: option.map_comp comp_def)
  also have "\<dots> = Some 976"
    unfolding fbs_lens [OF ex_ready(1)] by (simp add: masked_len_def ex_data_def)
  finally show ?thesis
    by (simp add: ex_data_def)
qed

text \<open>C7. The code breaks the claim. On a zeroed scratch stack, a first invocation that
  resolves the write sequence 1000 leaves that number in the send buffer. A second
  invocation on the same stack resolves the sequence number 0; the enrichment returns
  without touching the send buffer, the gate of \<open>http2_fill_buffer_and_send\<close> reads the
  number left there, and the three records of the block are written.\<close>

theorem stale_tcp_seq_still_emits:
  "http2_stack_map ex_maps = Some zero_stack \<and>
   resolved_tcp_seq (ex_env 0) ex_first_run (hs_read (ex_headers False)) (hs_fd (ex_headers False)) = 0 \<and>
   map ev_summary (new_events ex_first_run ex_second_run) = [(1, 7, 4), (1, 5, 11), (3, 0, 0)]"
proof -
  have h: "hs_ctx (ex_headers False) = Some ex_ctx" "hs_read (ex_headers False) = False"
    "hs_fd (ex_headers False) = 7" "hs_message_type (ex_headers False) = 1"
    by (simp_all add: ex_headers_def)
  have g1: "resolved_tcp_seq (ex_env 1000) ex_maps (hs_read (ex_headers False))
             (hs_fd (ex_headers False)) \<noteq> 0 \<or> sd_tcp_seq (st_send_buffer zero_stack) \<noteq> 0"
    by (simp add: h ex_resolved)
  have "seq_ready ex_first_run"
    unfolding ex_first_run_def
    by (rule submit_records(3) [OF ex_stack(1) h(1) g1 ex_stack(4)])
  then obtain stack where st: "http2_stack_map ex_first_run = Some stack"
    and nz: "sd_tcp_seq (st_send_buffer stack) \<noteq> 0"
    by (auto simp add: seq_ready_def split: option.splits)
  have g2: "resolved_tcp_seq (ex_env 0) ex_first_run (hs_read (ex_headers False))
             (hs_fd (ex_headers False)) \<noteq> 0 \<or> sd_tcp_seq (st_send_buffer stack) \<noteq> 0"
    using nz by simp
  have "map ev_summary (new_events ex_first_run ex_second_run) = [(1, 7, 4), (1, 5, 11), (3, 0, 0)]"
    unfolding ex_second_run_def
    using submit_records(2) [OF st h(1) g2 ex_stack(4), of ex_mem]
    by (simp add: ex_loop_fields ex_fits ex_masked h)
  then show ?thesis
    by (simp add: ex_stack h ex_resolved)
qed

text \<open>C8, as amended. \<open>report_http2_header\<close> writes one record whose size is
  \<open>1 + ((len + 8) & 1023)\<close>, where \<open>len\<close> is the offset of the data in the record plus the
  payload length: a number between 1 and 1024 that equals \<open>len + 9\<close> while
  \<open>len + 8 < 1024\<close> and wraps modulo 1024 beyond. It is not rounded to an alignment unit
  and does not saturate.\<close>

theorem report_http2_header_size:
  assumes "http2_stack_map g = Some stack"
      and "len = SOCKET_DATA_OFFSET K + sd_syscall_len (st_send_buffer stack)"
  shows "map pe_size (new_events g (report_http2_header K (Some c) g)) = [report_send_size len] \<and>
         unat (report_send_size len) = 1 + (unat len + 8) mod 1024 \<and>
         1 \<le> unat (report_send_size len) \<and> unat (report_send_size len) \<le> 1024 \<and>
         (unat len + 8 < 1024 \<longrightarrow> unat (report_send_size len) = unat len + 9)"
proof -
  have "map pe_size (new_events g (report_http2_header K (Some c) g)) = [report_send_size len]"
    using assms by (simp add: report_out new_events_def)
  moreover have "(unat len + 8) mod 1024 < 1024"
    by simp
  ultimately show ?thesis
    unfolding unat_report_send_size by auto
qed

theorem report_http2_header_size_witness:
  "map pe_size (new_events (ex_ready_maps 16)
      (report_http2_header ex_K (Some ex_ctx) (ex_ready_maps 16))) = [153]"
  using report_http2_header_size [where g = "ex_ready_maps 16" and K = ex_K and c = ex_ctx
      and len = 144
      and stack = "zero_stack\<lparr>st_send_buffer :=
               (st_send_buffer zero_stack)\<lparr>sd_tcp_seq := 100, sd_syscall_len := 16\<rparr>\<rparr>"]
  by (simp add: ex_ready_maps_def ex_K_def zero_stack_def report_send_size_def)

text \<open>The claim as stated fails: with the data at offset 128, the payload length 16
  gives the size 153, which is no multiple of 8; the payload length 887 gives 1024 and
  the longer payload 888 gives 1.\<close>

theorem report_http2_header_size_counterexample:
  "ex_report_sizes 16 = [153] \<and> \<not> 8 dvd (153 :: nat) \<and>
   ex_report_sizes 887 = [1024] \<and> ex_report_sizes 888 = [1] \<and> (887 :: u32) < 888"
  by (simp add: ex_report_sizes_eq report_send_size_def)

section \<open>The connection locator\<close>

lemma grpc_unwrap_match:
  "read_interface m ptr = Some i \<Longrightarrow> if_type i = credentials_syscallConn_itab info \<Longrightarrow>
   grpc_unwrap_and_resolve E m ptr info g =
     (get_fd_from_tcp_or_tls_conn_interface E
        (if_ptr (bpf_probe_read (read_interface m) i (if_ptr i))) info,
      g\<lparr>http2_tls := True\<rparr>)"
  by (simp add: grpc_unwrap_and_resolve_def is_grpc_syscallConn_interface_def
      bpf_probe_read_def update_http2_tls_def Let_def)

lemma grpc_unwrap_other:
  "read_interface m ptr = Some i \<Longrightarrow> if_type i \<noteq> credentials_syscallConn_itab info \<Longrightarrow>
   grpc_unwrap_and_resolve E m ptr info g = (get_fd_from_tcp_or_tls_conn_interface E ptr info, g)"
  by (simp add: grpc_unwrap_and_resolve_def is_grpc_syscallConn_interface_def
      bpf_probe_read_def Let_def)

lemma grpc_entries:
  "get_fd_from_grpc_http2Client_ctx K E m ctx info g =
     grpc_unwrap_and_resolve E m (conn_field_grpc_http2Client K m ctx info) info
       (update_http2_tls False g)"
  "get_fd_from_grpc_http2Server_ctx K E m ctx info g =
     grpc_unwrap_and_resolve E m (conn_field_grpc_http2Server K m ctx info) info
       (update_http2_tls False g)"
  "get_fd_from_grpc_loopyWriter K E m ctx info g =
     grpc_unwrap_and_resolve E m (conn_field_grpc_loopyWriter K m ctx info) info
       (update_http2_tls False g)"
  by (simp_all add: get_fd_from_grpc_http2Client_ctx_def get_fd_from_grpc_http2Server_ctx_def
      get_fd_from_grpc_loopyWriter_def conn_field_grpc_http2Client_def
      conn_field_grpc_http2Server_def conn_field_grpc_loopyWriter_def Let_def)

text \<open>C6. For each of the three gRPC entries, with \<open>p\<close> the connection field and \<open>i\<close>
  the interface read there: when the type of \<open>i\<close> equals the captured
  \<open>credentials_syscallConn_itab\<close>, the resolver is given the data pointer of the
  interface stored where the data pointer of \<open>i\<close> points (one unwrapping through
  \<open>if_ptr i\<close>), and the TLS flag is true afterwards; for any other type the resolver is
  given \<open>p\<close> itself and the flag is false.\<close>

theorem grpc_wrapper_detection:
  assumes "(entry, p) \<in> set
             [(get_fd_from_grpc_http2Client_ctx K E m ctx info, conn_field_grpc_http2Client K m ctx info),
              (get_fd_from_grpc_http2Server_ctx K E m ctx info, conn_field_grpc_http2Server K m ctx info),
              (get_fd_from_grpc_loopyWriter K E m ctx info, conn_field_grpc_loopyWriter K m ctx info)]"
      and "read_interface m p = Some i"
  shows "entry g =
           (if if_type i = credentials_syscallConn_itab info
            then (get_fd_from_tcp_or_tls_conn_interface E
                    (if_ptr (bpf_probe_read (read_interface m) i (if_ptr i))) info,
                  g\<lparr>http2_tls := True\<rparr>)
            else (get_fd_from_tcp_or_tls_conn_interface E p info, g\<lparr>http2_tls := False\<rparr>))"
proof -
  have e: "entry g = grpc_unwrap_and_resolve E m p info (update_http2_tls False g)"
    using assms(1) by (auto simp add: grpc_entries)
  show ?thesis
  proof (cases "if_type i = credentials_syscallConn_itab info")
    case True
    then show ?thesis
      unfolding e by (simp add: grpc_unwrap_match [OF assms(2)] update_http2_tls_def)
  next
    case False
    then show ?thesis
      unfolding e by (simp add: grpc_unwrap_other [OF assms(2)] update_http2_tls_def)
  qed
qed

theorem grpc_wrapper_detection_witness:
  "get_fd_from_grpc_http2Client_ctx ex_K (ex_env 0) ex_mem ex_ctx (ex_info 0x011200) ex_maps =
     (7, ex_maps\<lparr>http2_tls := True\<rparr>) \<and>
   get_fd_from_grpc_http2Client_ctx ex_K (ex_env 0) ex_mem ex_ctx
     ((ex_info 0x011200)\<lparr>credentials_syscallConn_itab := 0x1234\<rparr>) ex_maps =
     (8, ex_maps\<lparr>http2_tls := False\<rparr>)"
proof -
  have p: "conn_field_grpc_http2Client ex_K ex_mem ex_ctx (ex_info 0x011200) = 0x1010"
    "conn_field_grpc_http2Client ex_K ex_mem ex_ctx
       ((ex_info 0x011200)\<lparr>credentials_syscallConn_itab := 0x1234\<rparr>) = 0x1010"
    by (simp_all add: conn_field_grpc_http2Client_def get_the_first_parameter_def ex_K_def
        ex_info_def ex_ctx_def)
  have r: "read_interface ex_mem 0x1010 = Some \<lparr>if_type = 0xABCD, if_ptr = 0x4000\<rparr>"
    by (simp add: ex_mem_def)
  have a: "get_fd_from_grpc_http2Client_ctx ex_K (ex_env 0) ex_mem ex_ctx (ex_info 0x011200) ex_maps =
     (7, ex_maps\<lparr>http2_tls := True\<rparr>)"
    using grpc_wrapper_detection [where entry = "get_fd_from_grpc_http2Client_ctx ex_K (ex_env 0)
        ex_mem ex_ctx (ex_info 0x011200)" and p = "0x1010" and K = ex_K and E = "ex_env 0"
        and m = ex_mem and ctx = ex_ctx and info = "ex_info 0x011200" and g = ex_maps, OF _ r]
    by (simp add: p) (simp add: ex_info_def ex_mem_def ex_env_def bpf_probe_read_def
        get_fd_from_tcp_or_tls_conn_interface_def)
  have b: "get_fd_from_grpc_http2Client_ctx ex_K (ex_env 0) ex_mem ex_ctx
     ((ex_info 0x011200)\<lparr>credentials_syscallConn_itab := 0x1234\<rparr>) ex_maps =
     (8, ex_maps\<lparr>http2_tls := False\<rparr>)"
    using grpc_wrapper_detection [where entry = "get_fd_from_grpc_http2Client_ctx ex_K (ex_env 0)
        ex_mem ex_ctx ((ex_info 0x011200)\<lparr>credentials_syscallConn_itab := 0x1234\<rparr>)"
        and p = "0x1010" and K = ex_K and E = "ex_env 0"
        and m = ex_mem and ctx = ex_ctx
        and info = "(ex_info 0x011200)\<lparr>credentials_syscallConn_itab := 0x1234\<rparr>"
        and g = ex_maps, OF _ r]
    by (simp add: p) (simp add: ex_info_def ex_mem_def ex_env_def bpf_probe_read_def
        get_fd_from_tcp_or_tls_conn_interface_def)
  show ?thesis
    using a b by simp
qed

section \<open>The enricher\<close>

lemma fill_tuple_inet6:
  assumes "read_u16 m (sk + STRUCT_SOCK_FAMILY_OFFSET K) = Some (PF_INET6 K)"
      and "PF_INET6 K \<noteq> PF_INET K"
      and "readable m (sk + STRUCT_SOCK_IP6SADDR_OFFSET K) 16"
  shows "take 16 (tp_rcv_saddr (fill_tuple K m sk tp)) =
           map (\<lambda>i. byte_at m (sk + STRUCT_SOCK_IP6SADDR_OFFSET K + of_nat i)) [0..<16]"
    and "take 16 (tp_daddr (fill_tuple K m sk tp)) = take 16 (tp_rcv_saddr (fill_tuple K m sk tp))"
    and "tp_addr_len (fill_tuple K m sk tp) = 16"
  using assms
  by (simp_all add: fill_tuple_def Let_def bpf_probe_read_def bpf_probe_read_bytes_def
      read_bytes_def)

lemma fcs_tuple:
  assumes "resolved_tcp_seq E g (hd_read data) (hd_fd data) \<noteq> 0"
      and "members_offset g = Some off" and "ready off"
  shows "sd_tuple (fst (http2_fill_common_socket K E m data (sb, g))) =
           fill_tuple K m (socket_from_fd E (hd_fd data) off) (sd_tuple sb)"
  using assms
  by (simp add: http2_fill_common_socket_def fill_socket_id_def Let_def split: option.splits)

lemma fcs_first_sight:
  assumes "resolved_tcp_seq E g (hd_read data) (hd_fd data) \<noteq> 0"
      and "members_offset g = Some off" and "ready off"
      and "trace_uid_map g = Some tu"
      and "\<not> is_socket_info_valid K (socket_info_map g (conn_key_of K E (hd_fd data)))"
  shows "sd_socket_id (fst (http2_fill_common_socket K E m data (sb, g))) = socket_id tu + 1"
    and "socket_info_map (snd (http2_fill_common_socket K E m data (sb, g)))
           = (socket_info_map g)(conn_key_of K E (hd_fd data) \<mapsto> \<lparr>uid = socket_id tu + 1\<rparr>)"
    and "map_option socket_id (trace_uid_map (snd (http2_fill_common_socket K E m data (sb, g))))
           = Some (socket_id tu + 1)"
    and "members_offset (snd (http2_fill_common_socket K E m data (sb, g))) = members_offset g"
  using assms
  by (simp_all add: http2_fill_common_socket_def fill_socket_id_def Let_def conn_key_of_def
      split: option.splits)

lemma fcs_known:
  assumes "resolved_tcp_seq E g (hd_read data) (hd_fd data) \<noteq> 0"
      and "members_offset g = Some off" and "ready off"
      and "trace_uid_map g = Some tu"
      and "socket_info_map g (conn_key_of K E (hd_fd data)) = Some si"
      and "socket_info_ok K si"
  shows "sd_socket_id (fst (http2_fill_common_socket K E m data (sb, g))) = uid si"
    and "snd (http2_fill_common_socket K E m data (sb, g)) = g"
  using assms
  by (simp_all add: http2_fill_common_socket_def fill_socket_id_def Let_def conn_key_of_def
      is_socket_info_valid_def split: option.splits)

text \<open>C5. Take a first enrichment that reaches the socket-id step (a nonzero sequence
  number, the offset table ready, the counter present) for a (tgid, fd) pair whose
  socket-info entry is absent or not valid: it puts the counter plus 1 into the event,
  stores it under the pair's key and increments the counter. A later enrichment for the
  same pair that reaches the step puts the same id into the event and leaves the counter
  and the socket-info map as they are, provided \<open>is_socket_info_valid\<close> accepts the stored
  entry.\<close>

theorem socket_id_allocation_idempotent:
  assumes seq1: "resolved_tcp_seq E1 g (hd_read d1) (hd_fd d1) \<noteq> 0"
      and off: "members_offset g = Some off" "ready off"
      and tu: "trace_uid_map g = Some tu"
      and fresh: "\<not> is_socket_info_valid K (socket_info_map g (conn_key_of K E1 (hd_fd d1)))"
      and r1: "http2_fill_common_socket K E1 m1 d1 (sb, g) = (sb1, g1)"
      and same: "drop_bit 32 (pid_tgid E2) = drop_bit 32 (pid_tgid E1)" "hd_fd d2 = hd_fd d1"
      and seq2: "resolved_tcp_seq E2 g1 (hd_read d2) (hd_fd d2) \<noteq> 0"
      and ok: "socket_info_ok K \<lparr>uid = socket_id tu + 1\<rparr>"
      and r2: "http2_fill_common_socket K E2 m2 d2 (sb', g1) = (sb2, g2)"
  shows "sd_socket_id sb1 = socket_id tu + 1 \<and>
         socket_info_map g1 (conn_key_of K E1 (hd_fd d1)) = Some \<lparr>uid = socket_id tu + 1\<rparr> \<and>
         map_option socket_id (trace_uid_map g1) = Some (socket_id tu + 1) \<and>
         sd_socket_id sb2 = sd_socket_id sb1 \<and>
         trace_uid_map g2 = trace_uid_map g1 \<and>
         socket_info_map g2 = socket_info_map g1"
proof -
  note fs = fcs_first_sight [OF seq1 off tu fresh, of m1 sb, unfolded r1, simplified]
  have k: "conn_key_of K E2 (hd_fd d2) = conn_key_of K E1 (hd_fd d1)"
    by (simp add: conn_key_of_def same)
  obtain tu1 where tu1: "trace_uid_map g1 = Some tu1"
    using fs(3) by auto
  have e: "socket_info_map g1 (conn_key_of K E2 (hd_fd d2)) = Some \<lparr>uid = socket_id tu + 1\<rparr>"
    by (simp add: k fs(2))
  have o1: "members_offset g1 = Some off"
    by (simp add: fs(4) off)
  note kn = fcs_known [OF seq2 o1 off(2) tu1 e ok, of m2 sb', unfolded r2, simplified]
  show ?thesis
    using fs kn by simp
qed

theorem socket_id_allocation_idempotent_witness:
  "sd_socket_id (fst ex_enrich1) = 42 \<and>
   map_option socket_id (trace_uid_map (snd ex_enrich1)) = Some 42 \<and>
   sd_socket_id (fst ex_enrich2) = 42 \<and>
   trace_uid_map (snd ex_enrich2) = trace_uid_map (snd ex_enrich1)"
proof -
  have d: "hd_read ex_data = False" "hd_fd ex_data = 7"
    by (simp_all add: ex_data_def)
  have seq1: "resolved_tcp_seq (ex_env 1000) ex_maps (hd_read ex_data) (hd_fd ex_data) \<noteq> 0"
    and seq2: "resolved_tcp_seq (ex_env 2000) (snd ex_enrich1) (hd_read ex_data) (hd_fd ex_data) \<noteq> 0"
    by (simp_all add: d ex_resolved)
  have off: "members_offset ex_maps = Some \<lparr>ready = True\<rparr>" "ready \<lparr>ready = True\<rparr>"
    and tu: "trace_uid_map ex_maps = Some \<lparr>socket_id = 41\<rparr>"
    and fresh: "\<not> is_socket_info_valid ex_K
                   (socket_info_map ex_maps (conn_key_of ex_K (ex_env 1000) (hd_fd ex_data)))"
    by (simp_all add: ex_maps_def is_socket_info_valid_def)
  have same: "drop_bit 32 (pid_tgid (ex_env 2000)) = drop_bit 32 (pid_tgid (ex_env 1000))"
    by (simp add: ex_env_def)
  have ok: "socket_info_ok ex_K \<lparr>uid = socket_id \<lparr>socket_id = 41\<rparr> + 1\<rparr>"
    by (simp add: ex_K_def)
  have r1: "http2_fill_common_socket ex_K (ex_env 1000) ex_mem ex_data
              (st_send_buffer zero_stack, ex_maps) = (fst ex_enrich1, snd ex_enrich1)"
    and r2: "http2_fill_common_socket ex_K (ex_env 2000) ex_mem ex_data
              (fst ex_enrich1, snd ex_enrich1) = (fst ex_enrich2, snd ex_enrich2)"
    by (simp_all add: ex_enrich1_def ex_enrich2_def)
  show ?thesis
    using socket_id_allocation_idempotent [OF seq1 off tu fresh r1 same refl seq2 ok r2]
    by simp
qed

text \<open>C9. Take an enrichment that reaches the five-tuple step and reads the address
  family \<open>PF_INET6\<close> from the socket, the 16 bytes at the IPv6 source-address offset
  being readable. Both 16-byte address fields of the send buffer are then those same
  bytes, and every record that \<open>http2_fill_buffer_and_send\<close> writes from that stack
  carries them: the emitted remote address equals the emitted local address.\<close>

theorem inet6_addresses_equal:
  assumes stack: "http2_stack_map g = Some stack"
      and seq: "resolved_tcp_seq E g (hd_read data) (hd_fd data) \<noteq> 0"
      and off: "members_offset g = Some off" "ready off"
      and sk: "sk = socket_from_fd E (hd_fd data) off"
      and fam: "read_u16 m (sk + STRUCT_SOCK_FAMILY_OFFSET K) = Some (PF_INET6 K)"
               "PF_INET6 K \<noteq> PF_INET K"
      and rd: "readable m (sk + STRUCT_SOCK_IP6SADDR_OFFSET K) 16"
      and r: "http2_fill_common_socket K E m data (st_send_buffer stack, g) = (sb, g1)"
      and ev: "ev \<in> set (new_events g
                 (http2_fill_buffer_and_send K m data'
                    (g1\<lparr>http2_stack_map := Some (stack\<lparr>st_send_buffer := sb\<rparr>)\<rparr>)))"
  shows "ev_tuple ev = sd_tuple sb \<and>
         take 16 (tp_rcv_saddr (ev_tuple ev)) =
           map (\<lambda>i. byte_at m (sk + STRUCT_SOCK_IP6SADDR_OFFSET K + of_nat i)) [0..<16] \<and>
         take 16 (tp_daddr (ev_tuple ev)) = take 16 (tp_rcv_saddr (ev_tuple ev)) \<and>
         tp_addr_len (ev_tuple ev) = 16"
proof -
  define g3 where "g3 = g1\<lparr>http2_stack_map := Some (stack\<lparr>st_send_buffer := sb\<rparr>)\<rparr>"
  have sb: "sb = fst (http2_fill_common_socket K E m data (st_send_buffer stack, g))"
    and g1: "g1 = snd (http2_fill_common_socket K E m data (st_send_buffer stack, g))"
    by (simp_all add: r)
  have "socket_data_out g3 = socket_data_out g"
    by (simp add: g3_def g1 fcs_out)
  then have "new_events g3 = new_events g"
    by (rule new_events_same)
  with ev have "ev \<in> set (new_events g3 (http2_fill_buffer_and_send K m data' g3))"
    by (simp add: g3_def [symmetric])
  moreover have "http2_stack_map g3 = Some (stack\<lparr>st_send_buffer := sb\<rparr>)"
    by (simp add: g3_def)
  ultimately have t: "ev_tuple ev = sd_tuple sb"
    using fbs_new_events by fastforce
  have "sd_tuple sb = fill_tuple K m sk (sd_tuple (st_send_buffer stack))"
    unfolding sb sk by (rule fcs_tuple [OF seq off])
  then show ?thesis
    using t fill_tuple_inet6 [OF fam rd] by simp
qed

theorem inet6_addresses_equal_witness:
  "length (socket_data_out ex_sent) = 1 \<and>
   take 16 (tp_daddr (ev_tuple (last (socket_data_out ex_sent)))) =
     take 16 (tp_rcv_saddr (ev_tuple (last (socket_data_out ex_sent)))) \<and>
   tp_addr_len (ev_tuple (last (socket_data_out ex_sent))) = 16"
proof -
  define g3 where "g3 = (snd ex_enrich1)\<lparr>http2_stack_map :=
                           Some (zero_stack\<lparr>st_send_buffer := fst ex_enrich1\<rparr>)\<rparr>"
  have d: "hd_read ex_data = False" "hd_fd ex_data = 7" "hd_ctx ex_data = Some ex_ctx"
    by (simp_all add: ex_data_def)
  have seq: "resolved_tcp_seq (ex_env 1000) ex_maps (hd_read ex_data) (hd_fd ex_data) \<noteq> 0"
    by (simp add: d ex_resolved)
  have "sd_tcp_seq (fst ex_enrich1) \<noteq> 0"
    unfolding ex_enrich1_def fcs_seq using seq by simp
  then have rdy: "seq_ready g3"
    by (simp add: g3_def seq_ready_def)
  have o3: "socket_data_out g3 = []"
    by (simp add: g3_def ex_enrich1_def fcs_out ex_stack)
  have fits: "fits_buffer ex_K (hd_name ex_data) (hd_value ex_data)"
    by (simp add: fits_buffer_def masked_len_def ex_K_def ex_data_def)
  from fbs_out(1) [OF rdy d(3), of ex_K ex_mem] fits
  obtain evs where out: "socket_data_out ex_sent = evs" and len: "length evs = 1"
    by (auto simp add: ex_sent_def g3_def [symmetric] o3 dest!: arg_cong [where f = length])
  have ne: "new_events ex_maps ex_sent = evs"
    by (simp add: new_events_def ex_stack out)
  have mem: "last (socket_data_out ex_sent) \<in> set (new_events ex_maps
                 (http2_fill_buffer_and_send ex_K ex_mem ex_data
                    ((snd ex_enrich1)\<lparr>http2_stack_map :=
                        Some (zero_stack\<lparr>st_send_buffer := fst ex_enrich1\<rparr>)\<rparr>)))"
    using len unfolding ex_sent_def [symmetric] ne out by (cases evs) auto
  have off: "members_offset ex_maps = Some \<lparr>ready = True\<rparr>" "ready \<lparr>ready = True\<rparr>"
    by (simp_all add: ex_maps_def)
  have fam: "read_u16 ex_mem (socket_from_fd (ex_env 1000) (hd_fd ex_data) \<lparr>ready = True\<rparr>
                + STRUCT_SOCK_FAMILY_OFFSET ex_K) = Some (PF_INET6 ex_K)"
    "PF_INET6 ex_K \<noteq> PF_INET ex_K"
    "readable ex_mem (socket_from_fd (ex_env 1000) (hd_fd ex_data) \<lparr>ready = True\<rparr>
                + STRUCT_SOCK_IP6SADDR_OFFSET ex_K) 16"
    by (simp_all add: ex_mem_def ex_env_def ex_K_def)
  have r: "http2_fill_common_socket ex_K (ex_env 1000) ex_mem ex_data
             (st_send_buffer zero_stack, ex_maps) = (fst ex_enrich1, snd ex_enrich1)"
    by (simp add: ex_enrich1_def)
  show ?thesis
    using inet6_addresses_equal [OF ex_stack(1) seq off refl fam r mem, THEN conjunct2] len out
    by simp
qed

section \<open>The client entry points\<close>

lemma update_http2_tls_simps [simp]:
  "http2_stack_map (update_http2_tls b g) = http2_stack_map g"
  "socket_data_out (update_http2_tls b g) = socket_data_out g"
  "proc_info_map (update_http2_tls b g) = proc_info_map g"
  by (simp_all add: update_http2_tls_def)

lemma fbs_after_fcs_stream:
  assumes "ev \<in> set (new_events g
             (http2_fill_buffer_and_send K m data'
                ((snd (http2_fill_common_socket K E m data (sb, g1)))
                   \<lparr>http2_stack_map := Some stack'\<rparr>)))"
      and "socket_data_out g1 = socket_data_out g"
  shows "ev_stream_id ev = hd_stream data'"
proof -
  define g3 where "g3 = (snd (http2_fill_common_socket K E m data (sb, g1)))\<lparr>http2_stack_map := Some stack'\<rparr>"
  have "socket_data_out g3 = socket_data_out g"
    by (simp add: g3_def fcs_out assms(2))
  then have "new_events g3 = new_events g"
    by (rule new_events_same)
  with assms(1) have "ev \<in> set (new_events g3 (http2_fill_buffer_and_send K m data' g3))"
    by (simp add: g3_def [symmetric])
  moreover have "http2_stack_map g3 = Some stack'"
    by (simp add: g3_def)
  ultimately show ?thesis
    using fbs_new_events by blast
qed

lemma fbs_after_fcs_emits:
  assumes "socket_data_out g1 = socket_data_out g"
      and "resolved_tcp_seq E g1 (hd_read data) (hd_fd data) \<noteq> 0"
      and "hd_ctx data' = Some c"
      and "fits_buffer K (hd_name data') (hd_value data')"
  shows "length (new_events g
           (http2_fill_buffer_and_send K m data'
              ((snd (http2_fill_common_socket K E m data (sb, g1)))
                 \<lparr>http2_stack_map :=
                    Some (stack\<lparr>st_send_buffer :=
                            fst (http2_fill_common_socket K E m data (sb, g1))\<rparr>)\<rparr>))) = Suc 0"
proof -
  define g3 where "g3 = (snd (http2_fill_common_socket K E m data (sb, g1)))
                 \<lparr>http2_stack_map :=
                    Some (stack\<lparr>st_send_buffer :=
                            fst (http2_fill_common_socket K E m data (sb, g1))\<rparr>)\<rparr>"
  have "sd_tcp_seq (fst (http2_fill_common_socket K E m data (sb, g1))) \<noteq> 0"
    unfolding fcs_seq using assms(2) by simp
  then have rdy: "seq_ready g3"
    by (simp add: g3_def seq_ready_def)
  have o3: "socket_data_out g3 = socket_data_out g"
    by (simp add: g3_def fcs_out assms(1))
  from fbs_out(1) [OF rdy assms(3), of K m] assms(4)
  obtain evs where out: "socket_data_out (http2_fill_buffer_and_send K m data' g3) =
                           socket_data_out g @ evs"
    and sm: "map ev_summary evs =
               [(hd_message_type data', masked_len (hd_name data'), masked_len (hd_value data'))]"
    by (auto simp add: o3)
  have len: "length evs = 1"
    using arg_cong [where f = length, OF sm] by simp
  from out have "new_events g (http2_fill_buffer_and_send K m data' g3) = evs"
    by (rule new_events_append)
  then show ?thesis
    by (simp add: g3_def [symmetric] len)
qed

lemma writeHeader_stream:
  assumes "proc_info_map g (ucast (drop_bit 32 (pid_tgid E))) = Some info"
      and "ev \<in> set (new_events g (uprobe_go_http2ClientConn_writeHeader K E m ctx g))"
  shows "ev_stream_id ev =
           bpf_probe_read (read_u32 m) 0
             (get_the_first_parameter K m ctx info
                + offsets info OFFSET_IDX_STREAM_HTTP2_CLIENT_CONN) - 2"
proof (cases "http2_stack_map g")
  case None
  with assms show ?thesis
    by (simp add: uprobe_go_http2ClientConn_writeHeader_def Let_def split_beta
        get_fd_from_http2ClientConn_ctx_def get_fd_from_http2ClientConn_def new_events_def)
next
  case (Some stack)
  with assms show ?thesis
    apply (simp add: uprobe_go_http2ClientConn_writeHeader_def Let_def split_beta
        get_fd_from_http2ClientConn_ctx_def get_fd_from_http2ClientConn_def)
    apply (drule fbs_after_fcs_stream)
     apply simp
    apply (simp split: if_splits)
    done
qed

lemma writeHeaders_stream:
  assumes "proc_info_map g (ucast (drop_bit 32 (pid_tgid E))) = Some info"
      and "ev \<in> set (new_events g (uprobe_go_http2ClientConn_writeHeaders K E m ctx g))"
  shows "ev_stream_id ev =
           bpf_probe_read (read_u32 m) 0
             (get_the_first_parameter K m ctx info
                + offsets info OFFSET_IDX_STREAM_HTTP2_CLIENT_CONN) - 2"
proof (cases "http2_stack_map g")
  case None
  with assms show ?thesis
    by (simp add: uprobe_go_http2ClientConn_writeHeaders_def Let_def split_beta
        get_fd_from_http2ClientConn_ctx_def get_fd_from_http2ClientConn_def new_events_def)
next
  case (Some stack)
  with assms show ?thesis
    apply (simp add: uprobe_go_http2ClientConn_writeHeaders_def Let_def split_beta
        get_fd_from_http2ClientConn_ctx_def get_fd_from_http2ClientConn_def)
    apply (drule fbs_after_fcs_stream)
     apply simp
    apply (simp split: if_splits)
    done
qed

lemma fbs_stack_stream:
  assumes "seq_ready g"
  shows "map_option (\<lambda>s. hb_stream_id (st_http2_buffer s))
           (http2_stack_map (http2_fill_buffer_and_send K m data g)) = Some (hd_stream data)"
  using assms
  by (cases "hd_ctx data")
     (auto simp add: http2_fill_buffer_and_send_def seq_ready_def Let_def report_http2_header_def
       split: option.splits)

lemma fbs_after_fcs_stack_stream:
  assumes "resolved_tcp_seq E g1 (hd_read data) (hd_fd data) \<noteq> 0"
      and "hd_stream data' = V"
  shows "\<exists>z. http2_stack_map
              (http2_fill_buffer_and_send K m data'
                 ((snd (http2_fill_common_socket K E m data (sb, g1)))
                    \<lparr>http2_stack_map :=
                       Some (stack\<lparr>st_send_buffer :=
                               fst (http2_fill_common_socket K E m data (sb, g1))\<rparr>)\<rparr>)) = Some z \<and>
             hb_stream_id (st_http2_buffer z) = V"
proof -
  have "sd_tcp_seq (fst (http2_fill_common_socket K E m data (sb, g1))) \<noteq> 0"
    unfolding fcs_seq using assms(1) by simp
  then have "seq_ready ((snd (http2_fill_common_socket K E m data (sb, g1)))
                    \<lparr>http2_stack_map :=
                       Some (stack\<lparr>st_send_buffer :=
                               fst (http2_fill_common_socket K E m data (sb, g1))\<rparr>)\<rparr>)"
    by (simp add: seq_ready_def)
  from fbs_stack_stream [OF this, of K m data'] show ?thesis
    by (auto simp add: assms(2))
qed

lemma writeHeaders_emits:
  assumes "proc_info_map g (ucast (drop_bit 32 (pid_tgid E))) = Some info"
      and "http2_stack_map g = Some stack"
      and "tcp_write_seq_from_fd E (client_write_fd K E m ctx info) \<noteq> 0"
      and "16 \<le> HTTP2_BUFFER_INFO_SIZE K"
  shows "length (new_events g (uprobe_go_http2ClientConn_writeHeaders K E m ctx g)) = 1"
  using assms
  apply (simp add: uprobe_go_http2ClientConn_writeHeaders_def Let_def split_beta
        get_fd_from_http2ClientConn_ctx_def get_fd_from_http2ClientConn_def client_write_fd_def)
  apply (rule fbs_after_fcs_emits [where c = ctx])
     apply (simp_all add: resolved_tcp_seq_def fits_buffer_def zero_string_def not_less
        masked_len_def)
  done

lemma writeHeaders_stack_stream:
  assumes "proc_info_map g (ucast (drop_bit 32 (pid_tgid E))) = Some info"
      and "http2_stack_map g = Some stack"
      and "tcp_write_seq_from_fd E (client_write_fd K E m ctx info) \<noteq> 0"
  shows "map_option (\<lambda>s. hb_stream_id (st_http2_buffer s))
           (http2_stack_map (uprobe_go_http2ClientConn_writeHeaders K E m ctx g)) =
         Some (bpf_probe_read (read_u32 m) 0 (client_stream_field K m ctx info) - 2)"
  using assms
  apply (simp add: uprobe_go_http2ClientConn_writeHeaders_def Let_def split_beta
        get_fd_from_http2ClientConn_ctx_def get_fd_from_http2ClientConn_def client_write_fd_def
        client_stream_field_def)
  apply (rule fbs_after_fcs_stack_stream)
   apply (simp_all add: resolved_tcp_seq_def)
  done

lemma writeHeader_emits:
  assumes "proc_info_map g (ucast (drop_bit 32 (pid_tgid E))) = Some info"
      and "http2_stack_map g = Some stack"
      and "tcp_write_seq_from_fd E (client_write_fd K E m ctx info) \<noteq> 0"
      and "fits_buffer K (fst (writeHeader_strings K m ctx info))
             (snd (writeHeader_strings K m ctx info))"
  shows "length (new_events g (uprobe_go_http2ClientConn_writeHeader K E m ctx g)) = 1"
proof (cases "GO_VERSION_1_17_0 K \<le> version info")
  case True
  with assms show ?thesis
    apply (simp add: uprobe_go_http2ClientConn_writeHeader_def Let_def split_beta
        get_fd_from_http2ClientConn_ctx_def get_fd_from_http2ClientConn_def client_write_fd_def
        writeHeader_strings_def)
    apply (rule fbs_after_fcs_emits [where c = ctx])
       apply (simp_all add: resolved_tcp_seq_def)
    done
next
  case False
  with assms show ?thesis
    apply (simp add: uprobe_go_http2ClientConn_writeHeader_def Let_def split_beta
        get_fd_from_http2ClientConn_ctx_def get_fd_from_http2ClientConn_def client_write_fd_def
        writeHeader_strings_def zero_string_def)
    apply (rule fbs_after_fcs_emits [where c = ctx])
       apply (simp_all add: resolved_tcp_seq_def)
    done
qed

lemma writeHeader_stack_stream:
  assumes "proc_info_map g (ucast (drop_bit 32 (pid_tgid E))) = Some info"
      and "http2_stack_map g = Some stack"
      and "tcp_write_seq_from_fd E (client_write_fd K E m ctx info) \<noteq> 0"
  shows "map_option (\<lambda>s. hb_stream_id (st_http2_buffer s))
           (http2_stack_map (uprobe_go_http2ClientConn_writeHeader K E m ctx g)) =
         Some (bpf_probe_read (read_u32 m) 0 (client_stream_field K m ctx info) - 2)"
proof (cases "GO_VERSION_1_17_0 K \<le> version info")
  case True
  with assms show ?thesis
    apply (simp add: uprobe_go_http2ClientConn_writeHeader_def Let_def split_beta
        get_fd_from_http2ClientConn_ctx_def get_fd_from_http2ClientConn_def client_write_fd_def
        client_stream_field_def)
    apply (rule fbs_after_fcs_stack_stream)
     apply (simp_all add: resolved_tcp_seq_def)
    done
next
  case False
  with assms show ?thesis
    apply (simp add: uprobe_go_http2ClientConn_writeHeader_def Let_def split_beta
        get_fd_from_http2ClientConn_ctx_def get_fd_from_http2ClientConn_def client_write_fd_def
        client_stream_field_def)
    apply (rule fbs_after_fcs_stack_stream)
     apply (simp_all add: resolved_tcp_seq_def)
    done
qed

lemma single_event_stream:
  assumes "length evs = 1" and "\<forall>ev \<in> set evs. ev_stream_id ev = V"
  shows "map ev_stream_id evs = [V]"
  using assms by (cases evs) auto

text \<open>C10. Both client write entry points, the single-header write
  \<open>uprobe_go_http2ClientConn_writeHeader\<close> and the header-block write
  \<open>uprobe_go_http2ClientConn_writeHeaders\<close>, place in the event the 32-bit value read at
  the stream field of the client connection, minus 2 in unsigned 32-bit arithmetic: call
  it \<open>V\<close> (a denied read leaves the initial 0 there, and then \<open>V\<close> is \<open>0 - 2\<close>). For a
  known process, every record that either entry point emits carries \<open>V\<close>. When moreover
  the scratch stack is there and the write sequence of the resolved descriptor is not
  zero, each entry point leaves \<open>V\<close> as the stream id of the header buffer, and emits
  exactly one record, which carries \<open>V\<close>, as soon as the header fits the buffer (for the
  header-block write: as soon as the capacity is at least 16).\<close>

theorem client_stream_id_minus_two:
  assumes "proc_info_map g (ucast (drop_bit 32 (pid_tgid E))) = Some info"
      and "V = bpf_probe_read (read_u32 m) 0 (client_stream_field K m ctx info) - 2"
  shows "(\<forall>ev \<in> set (new_events g (uprobe_go_http2ClientConn_writeHeader K E m ctx g)).
            ev_stream_id ev = V) \<and>
         (\<forall>ev \<in> set (new_events g (uprobe_go_http2ClientConn_writeHeaders K E m ctx g)).
            ev_stream_id ev = V) \<and>
         (\<forall>v. read_u32 m (get_the_first_parameter K m ctx info
                + offsets info OFFSET_IDX_STREAM_HTTP2_CLIENT_CONN) = Some v \<longrightarrow> V = v - 2) \<and>
         (http2_stack_map g = Some stack \<longrightarrow>
          tcp_write_seq_from_fd E (client_write_fd K E m ctx info) \<noteq> 0 \<longrightarrow>
            map_option (\<lambda>s. hb_stream_id (st_http2_buffer s))
              (http2_stack_map (uprobe_go_http2ClientConn_writeHeader K E m ctx g)) = Some V \<and>
            map_option (\<lambda>s. hb_stream_id (st_http2_buffer s))
              (http2_stack_map (uprobe_go_http2ClientConn_writeHeaders K E m ctx g)) = Some V \<and>
            (fits_buffer K (fst (writeHeader_strings K m ctx info))
               (snd (writeHeader_strings K m ctx info)) \<longrightarrow>
               map ev_stream_id (new_events g (uprobe_go_http2ClientConn_writeHeader K E m ctx g))
                 = [V]) \<and>
            (16 \<le> HTTP2_BUFFER_INFO_SIZE K \<longrightarrow>
               map ev_stream_id (new_events g (uprobe_go_http2ClientConn_writeHeaders K E m ctx g))
                 = [V]))"
proof -
  have a: "\<forall>ev \<in> set (new_events g (uprobe_go_http2ClientConn_writeHeader K E m ctx g)).
            ev_stream_id ev = V"
    using writeHeader_stream [OF assms(1)] by (simp add: assms(2) client_stream_field_def)
  have b: "\<forall>ev \<in> set (new_events g (uprobe_go_http2ClientConn_writeHeaders K E m ctx g)).
            ev_stream_id ev = V"
    using writeHeaders_stream [OF assms(1)] by (simp add: assms(2) client_stream_field_def)
  have c: "\<forall>v. read_u32 m (get_the_first_parameter K m ctx info
                + offsets info OFFSET_IDX_STREAM_HTTP2_CLIENT_CONN) = Some v \<longrightarrow> V = v - 2"
    by (simp add: assms(2) client_stream_field_def bpf_probe_read_def)
  have d: "map_option (\<lambda>s. hb_stream_id (st_http2_buffer s))
              (http2_stack_map (uprobe_go_http2ClientConn_writeHeader K E m ctx g)) = Some V"
    and e: "map_option (\<lambda>s. hb_stream_id (st_http2_buffer s))
              (http2_stack_map (uprobe_go_http2ClientConn_writeHeaders K E m ctx g)) = Some V"
    if "http2_stack_map g = Some stack"
      and "tcp_write_seq_from_fd E (client_write_fd K E m ctx info) \<noteq> 0"
    using writeHeader_stack_stream [OF assms(1) that] writeHeaders_stack_stream [OF assms(1) that]
    by (simp_all add: assms(2))
  have f: "map ev_stream_id (new_events g (uprobe_go_http2ClientConn_writeHeader K E m ctx g)) = [V]"
    if "http2_stack_map g = Some stack"
      and "tcp_write_seq_from_fd E (client_write_fd K E m ctx info) \<noteq> 0"
      and "fits_buffer K (fst (writeHeader_strings K m ctx info))
               (snd (writeHeader_strings K m ctx info))"
    using writeHeader_emits [OF assms(1) that] a by (rule single_event_stream)
  have h: "map ev_stream_id (new_events g (uprobe_go_http2ClientConn_writeHeaders K E m ctx g)) = [V]"
    if "http2_stack_map g = Some stack"
      and "tcp_write_seq_from_fd E (client_write_fd K E m ctx info) \<noteq> 0"
      and "16 \<le> HTTP2_BUFFER_INFO_SIZE K"
    using writeHeaders_emits [OF assms(1) that] b by (rule single_event_stream)
  show ?thesis
    using a b c d e f h by blast
qed

theorem client_stream_id_minus_two_witness:
  "read_u32 ex_mem (client_stream_field ex_K ex_mem ex_ctx (ex_info 0x011200)) = Some 1 \<and>
   map ev_stream_id (socket_data_out
     (uprobe_go_http2ClientConn_writeHeader ex_K (ex_env 1000) ex_mem ex_ctx ex_maps)) = [0xFFFFFFFF] \<and>
   map ev_stream_id (socket_data_out
     (uprobe_go_http2ClientConn_writeHeaders ex_K (ex_env 1000) ex_mem ex_ctx ex_maps)) = [0xFFFFFFFF] \<and>
   map_option (\<lambda>s. hb_stream_id (st_http2_buffer s))
     (http2_stack_map (uprobe_go_http2ClientConn_writeHeader ex_K (ex_env 1000) ex_mem ex_ctx ex_maps))
     = Some 0xFFFFFFFF \<and>
   map_option (\<lambda>s. hb_stream_id (st_http2_buffer s))
     (http2_stack_map (uprobe_go_http2ClientConn_writeHeaders ex_K (ex_env 1000) ex_mem ex_ctx ex_maps))
     = Some 0xFFFFFFFF"
proof -
  have pi: "proc_info_map ex_maps (ucast (drop_bit 32 (pid_tgid (ex_env 1000)))) =
              Some (ex_info 0x011200)"
    by (simp add: ex_maps_def ex_env_def)
  have ws: "tcp_write_seq_from_fd (ex_env 1000)
              (client_write_fd ex_K (ex_env 1000) ex_mem ex_ctx (ex_info 0x011200)) \<noteq> 0"
    by (simp add: ex_env_def)
  have v: "read_u32 ex_mem (client_stream_field ex_K ex_mem ex_ctx (ex_info 0x011200)) = Some 1"
    by (simp add: client_stream_field_def get_the_first_parameter_def ex_K_def ex_info_def
        ex_ctx_def ex_mem_def)
  have V: "(0xFFFFFFFF :: u32) =
             bpf_probe_read (read_u32 ex_mem) 0
               (client_stream_field ex_K ex_mem ex_ctx (ex_info 0x011200)) - 2"
    by (simp add: bpf_probe_read_def v)
  have fits: "fits_buffer ex_K (fst (writeHeader_strings ex_K ex_mem ex_ctx (ex_info 0x011200)))
                (snd (writeHeader_strings ex_K ex_mem ex_ctx (ex_info 0x011200)))"
    by (simp add: writeHeader_strings_def fits_buffer_def masked_len_def ex_K_def ex_info_def
        ex_ctx_def)
  have ne: "new_events ex_maps g' = socket_data_out g'" for g'
    by (simp add: new_events_def ex_stack)
  show ?thesis
    using client_stream_id_minus_two [OF pi V, where stack = zero_stack]
      ex_stack(1) ws fits ex_stack(4) v
    by (simp add: ne)
qed

end
